theory Spec2Isabelle
  imports Main
begin

section \<open>The asynchronous chat server (task3_async_chat/server.py)\<close>

text \<open>
  A shallow embedding of \<^verbatim>\<open>ChatRoom\<close>, \<^verbatim>\<open>ClientConnection\<close> and
  \<^verbatim>\<open>AsyncChatServer\<close>. Python objects live in a store indexed by their identity
  (a natural number); every method takes the server state and returns the updated one.
  An \<^verbatim>\<open>asyncio.Queue\<close> is the list of its pending items, oldest first: \<^verbatim>\<open>put\<close>
  appends (the queues are unbounded, so it never waits) and \<^verbatim>\<open>get\<close> takes the head.
  A Python \<^verbatim>\<open>str\<close> is a \<open>string\<close> whose characters are the code points below 256.
  Only the error-level entries of the log are kept.
\<close>

subsection \<open>Strings\<close>

definition isspace :: "char \<Rightarrow> bool" where
  \<comment> \<open>\<^verbatim>\<open>str.isspace\<close> on the code points below 256\<close>
  "isspace c = (of_char c \<in> {9, 10, 11, 12, 13, 28, 29, 30, 31, 32, 133, 160 :: nat})"

definition strip :: "string \<Rightarrow> string" where
  "strip s = rev (dropWhile isspace (rev (dropWhile isspace s)))"

definition split1 :: "string \<Rightarrow> string list" where
  \<comment> \<open>\<^verbatim>\<open>s.split(maxsplit=1)\<close>: the first word, then the rest without its leading whitespace\<close>
  "split1 s =
     (let s1 = dropWhile isspace s in
      if s1 = [] then []
      else
        let w = takeWhile (\<lambda>c. \<not> isspace c) s1;
            r = dropWhile isspace (dropWhile (\<lambda>c. \<not> isspace c) s1)
        in if r = [] then [w] else [w, r])"

definition lower_char :: "char \<Rightarrow> char" where
  "lower_char c =
     (let n = (of_char c :: nat) in
      if (65 \<le> n \<and> n \<le> 90) \<or> (192 \<le> n \<and> n \<le> 222 \<and> n \<noteq> 215)
      then char_of (n + 32) else c)"

definition lower :: "string \<Rightarrow> string" where
  "lower s = map lower_char s"

definition lstrip_at :: "string \<Rightarrow> string" where
  \<comment> \<open>\<^verbatim>\<open>s.lstrip('@')\<close>\<close>
  "lstrip_at s = dropWhile (\<lambda>c. c = CHR ''@'') s"

definition startswith_slash :: "string \<Rightarrow> bool" where
  "startswith_slash s = (case s of [] \<Rightarrow> False | c # _ \<Rightarrow> c = CHR ''/'')"

fun join :: "string \<Rightarrow> string list \<Rightarrow> string" where
  "join sep [] = []"
| "join sep [x] = x"
| "join sep (x # y # ys) = x @ sep @ join sep (y # ys)"

definition digit_char :: "nat \<Rightarrow> char" where
  "digit_char d = ''0123456789'' ! d"

fun str_of_nat :: "nat \<Rightarrow> string" where
  "str_of_nat n = (if n < 10 then [digit_char n] else str_of_nat (n div 10) @ [digit_char (n mod 10)])"

declare str_of_nat.simps [simp del]

text \<open>
  \<^verbatim>\<open>client.username\<close> is \<^verbatim>\<open>None\<close> until the handshake has read a name. An f-string
  prints it as the text \<^verbatim>\<open>None\<close>; the \<^verbatim>\<open>sender\<close> and \<^verbatim>\<open>from\<close> fields of a message
  would hold \<^verbatim>\<open>None\<close> itself, which is rendered by the same text here (message values
  are strings). The server posts and sends private messages only for connections whose
  handshake is complete, which have a name.
\<close>

definition str_of_username :: "string option \<Rightarrow> string" where
  "str_of_username u = (case u of None \<Rightarrow> ''None'' | Some n \<Rightarrow> n)"

subsection \<open>Messages, connections, rooms, the server\<close>

text \<open>A message is a Python dict with string keys and values, in insertion order.\<close>

type_synonym message = "(string \<times> string) list"

definition has_key :: "message \<Rightarrow> string \<Rightarrow> bool" where
  "has_key m k = (k \<in> fst ` set m)"

text \<open>
  What \<^verbatim>\<open>reader.readline()\<close> followed by \<^verbatim>\<open>decode('utf-8')\<close> yields next: the text of a
  line (with its newline), or an exception (an I/O fault, or bytes that are not UTF-8).
  The inbound stream is the list of these events; at its end the peer has closed and
  \<^verbatim>\<open>readline\<close> returns \<^verbatim>\<open>b''\<close>.
\<close>

datatype read_event = Line string | Fault string

text \<open>
  The stream writer: the messages written so far, whether \<^verbatim>\<open>write\<close>/\<^verbatim>\<open>drain\<close> raise
  (and with which text), and whether \<^verbatim>\<open>close\<close> was called.
\<close>

record writer =
  wire :: "message list"
  broken :: "string option"
  closed :: bool

record client =
  username :: "string option"
  current_room :: "nat option"
  private_queue :: "message list"
  writer :: writer

text \<open>
  \<^verbatim>\<open>members\<close> is a Python set of connection objects; the list is the set in its
  iteration order. \<^verbatim>\<open>add\<close> of a new element puts it last here; no theorem below depends
  on where it goes.
\<close>

record chat_room =
  name :: string
  members :: "nat list"
  message_queue :: "message list"

text \<open>
  The file system: an absolute path (its components) denotes a location, \<open>resolve\<close>,
  and a location holds a regular file with its bytes, a directory, or nothing. Two paths
  denote the same file exactly when they resolve to the same location (the same
  spelling, a symbolic or hard link, a \<^verbatim>\<open>..\<close> component). The server process may
  open a location for reading when it is \<open>readable\<close> and for writing (or, for a
  directory, make a file in it) when it is \<open>writable\<close>. Other processes, and device
  errors while an open file is read or written, are not modelled.
\<close>

datatype node = File string | Dir

type_synonym path = "string list"

datatype exn = CancelledError | IndexError | TypeError | KeyError string

record server =
  rooms :: "string \<rightharpoonup> nat"
  clients :: "nat set"
  room_at :: "nat \<Rightarrow> chat_room"
  client_at :: "nat \<Rightarrow> client"
  next_room :: nat
  next_client :: nat
  time_source :: "nat \<Rightarrow> string"
  ticks :: nat
  error_log :: "string list"
  uploads_dir :: path
  cwd :: path
  resolve :: "path \<Rightarrow> nat"
  disk :: "nat \<Rightarrow> node option"
  readable :: "nat \<Rightarrow> bool"
  writable :: "nat \<Rightarrow> bool"

text \<open>
  \<^verbatim>\<open>datetime.now().strftime("%Y-%m-%d %H:%M:%S")\<close>: the clock is an arbitrary sequence
  of readings, \<open>time_source\<close>, of which \<open>ticks\<close> have been taken.
\<close>

definition now :: "server \<Rightarrow> string" where
  "now s = time_source s (ticks s)"

definition tick :: "server \<Rightarrow> server" where
  "tick s = s\<lparr>ticks := Suc (ticks s)\<rparr>"

definition upd_room :: "nat \<Rightarrow> (chat_room \<Rightarrow> chat_room) \<Rightarrow> server \<Rightarrow> server" where
  "upd_room r f s = s\<lparr>room_at := (room_at s)(r := f (room_at s r))\<rparr>"

definition upd_client :: "nat \<Rightarrow> (client \<Rightarrow> client) \<Rightarrow> server \<Rightarrow> server" where
  "upd_client c f s = s\<lparr>client_at := (client_at s)(c := f (client_at s c))\<rparr>"

definition queue_put :: "'a \<Rightarrow> 'a list \<Rightarrow> 'a list" where
  "queue_put m q = q @ [m]"

definition log_error :: "string \<Rightarrow> server \<Rightarrow> server" where
  "log_error e s = s\<lparr>error_log := error_log s @ [e]\<rparr>"

subsection \<open>ChatRoom\<close>

definition ChatRoom_init :: "string \<Rightarrow> chat_room" where
  "ChatRoom_init n = \<lparr>name = n, members = [], message_queue = []\<rparr>"

definition set_add :: "nat \<Rightarrow> nat list \<Rightarrow> nat list" where
  "set_add c ms = (if c \<in> set ms then ms else ms @ [c])"

definition set_discard :: "nat \<Rightarrow> nat list \<Rightarrow> nat list" where
  "set_discard c ms = removeAll c ms"

definition add_member :: "nat \<Rightarrow> nat \<Rightarrow> server \<Rightarrow> server" where
  "add_member r c s =
     (let message = [(''type'', ''system''),
                     (''content'', str_of_username (username (client_at s c)) @ '' joined the room''),
                     (''time'', now s)]
      in upd_room r (\<lambda>rm. rm\<lparr>members := set_add c (members rm),
                              message_queue := queue_put message (message_queue rm)\<rparr>) (tick s))"

definition remove_member :: "nat \<Rightarrow> nat \<Rightarrow> server \<Rightarrow> server" where
  "remove_member r c s =
     (let message = [(''type'', ''system''),
                     (''content'', str_of_username (username (client_at s c)) @ '' left the room''),
                     (''time'', now s)]
      in upd_room r (\<lambda>rm. rm\<lparr>members := set_discard c (members rm),
                              message_queue := queue_put message (message_queue rm)\<rparr>) (tick s))"

definition post_message :: "nat \<Rightarrow> nat \<Rightarrow> string \<Rightarrow> server \<Rightarrow> server" where
  "post_message r c content s =
     (let message = [(''type'', ''message''),
                     (''sender'', str_of_username (username (client_at s c))),
                     (''content'', content),
                     (''time'', now s)]
      in upd_room r (\<lambda>rm. rm\<lparr>message_queue := queue_put message (message_queue rm)\<rparr>) (tick s))"

text \<open>The scan of \<^verbatim>\<open>send_private_message\<close>: the first member with the name, if any.\<close>

fun find_member :: "server \<Rightarrow> string \<Rightarrow> nat list \<Rightarrow> nat option" where
  "find_member s to_username [] = None"
| "find_member s to_username (member # ms) =
     (if username (client_at s member) = Some to_username then Some member
      else find_member s to_username ms)"

definition private_message :: "server \<Rightarrow> nat \<Rightarrow> string \<Rightarrow> message" where
  "private_message s from_client content =
     [(''type'', ''private''),
      (''from'', str_of_username (username (client_at s from_client))),
      (''content'', content),
      (''time'', now s)]"

definition send_private_message :: "nat \<Rightarrow> nat \<Rightarrow> string \<Rightarrow> string \<Rightarrow> server \<Rightarrow> bool \<times> server" where
  "send_private_message r from_client to_username content s =
     (case find_member s to_username (members (room_at s r)) of
        Some target_member \<Rightarrow>
          (True, upd_client target_member
                   (\<lambda>cl. cl\<lparr>private_queue := queue_put (private_message s from_client content) (private_queue cl)\<rparr>)
                   (tick s))
      | None \<Rightarrow> (False, s))"

subsection \<open>ClientConnection\<close>

definition ClientConnection_init :: "writer \<Rightarrow> client" where
  "ClientConnection_init w = \<lparr>username = None, current_room = None, private_queue = [], writer = w\<rparr>"

text \<open>
  The body of the \<^verbatim>\<open>try\<close> in \<^verbatim>\<open>send_message\<close>: serialise, \<^verbatim>\<open>write\<close>, \<^verbatim>\<open>drain\<close>.
  The wire holds the dicts rather than their JSON text.
\<close>

definition write_drain :: "writer \<Rightarrow> message \<Rightarrow> string + writer" where
  "write_drain w m = (case broken w of Some e \<Rightarrow> Inl e | None \<Rightarrow> Inr (w\<lparr>wire := wire w @ [m]\<rparr>))"

text \<open>
  \<^verbatim>\<open>send_message\<close> catches every exception of the body and logs it. The first
  component is what the caller sees: \<open>None\<close> for a normal return, \<open>Some e\<close> for an
  exception \<open>e\<close> leaving the method.
\<close>

definition send_message :: "nat \<Rightarrow> message \<Rightarrow> server \<Rightarrow> string option \<times> server" where
  "send_message c m s =
     (case write_drain (writer (client_at s c)) m of
        Inr w \<Rightarrow> (None, upd_client c (\<lambda>cl. cl\<lparr>writer := w\<rparr>) s)
      | Inl e \<Rightarrow> (None, log_error e s))"

definition send :: "nat \<Rightarrow> message \<Rightarrow> server \<Rightarrow> server" where
  \<comment> \<open>\<^verbatim>\<open>await client.send_message(m)\<close> at a call site: nothing is returned or raised\<close>
  "send c m s = snd (send_message c m s)"

text \<open>
  \<^verbatim>\<open>receive_message\<close> on the inbound stream: the result (\<open>None\<close> is Python's
  \<^verbatim>\<open>None\<close>), the rest of the stream, and the state (an exception is logged).
\<close>

definition receive_message :: "read_event list \<Rightarrow> server \<Rightarrow> string option \<times> read_event list \<times> server" where
  "receive_message evs s =
     (case evs of
        [] \<Rightarrow> (None, [], s)
      | Line d # rest \<Rightarrow> (if d = [] then (None, rest, s) else (Some (strip d), rest, s))
      | Fault e # rest \<Rightarrow> (None, rest, log_error e s))"

definition falsy :: "string option \<Rightarrow> bool" where
  \<comment> \<open>\<^verbatim>\<open>not x\<close> for \<^verbatim>\<open>x\<close> a string or \<^verbatim>\<open>None\<close>\<close>
  "falsy x = (x = None \<or> x = Some [])"

subsection \<open>File transfer\<close>

fun split_slash :: "string \<Rightarrow> string list" where
  "split_slash [] = [[]]"
| "split_slash (c # cs) =
     (if c = CHR ''/'' then [] # split_slash cs
      else (case split_slash cs of [] \<Rightarrow> [[c]] | w # ws \<Rightarrow> (c # w) # ws))"

definition Path_parts :: "string \<Rightarrow> string list" where
  \<comment> \<open>\<^verbatim>\<open>Path(s)\<close>: empty and \<^verbatim>\<open>.\<close> components are dropped, \<^verbatim>\<open>..\<close> is kept\<close>
  "Path_parts s = filter (\<lambda>p. p \<noteq> [] \<and> p \<noteq> ''.'') (split_slash s)"

definition absolute :: "server \<Rightarrow> string \<Rightarrow> path" where
  \<comment> \<open>\<^verbatim>\<open>Path(s)\<close>, made absolute from the working directory when it is relative\<close>
  "absolute s p = (if startswith_slash p then Path_parts p else cwd s @ Path_parts p)"

definition path_name :: "path \<Rightarrow> string" where
  "path_name p = (if p = [] then [] else last p)"

definition str_of_path :: "path \<Rightarrow> string" where
  "str_of_path p = CHR ''/'' # join ''/'' p"

definition exists_path :: "server \<Rightarrow> path \<Rightarrow> bool" where
  "exists_path s p = (disk s (resolve s p) \<noteq> None)"

definition is_file :: "server \<Rightarrow> path \<Rightarrow> bool" where
  "is_file s p = (case disk s (resolve s p) of Some (File _) \<Rightarrow> True | _ \<Rightarrow> False)"

definition read_file :: "server \<Rightarrow> path \<Rightarrow> string" where
  \<comment> \<open>\<^verbatim>\<open>source.read()\<close> on a file opened for reading\<close>
  "read_file s p = (case disk s (resolve s p) of Some (File b) \<Rightarrow> b | _ \<Rightarrow> [])"

definition write_file :: "path \<Rightarrow> string \<Rightarrow> server \<Rightarrow> server" where
  "write_file p b s = s\<lparr>disk := (disk s)(resolve s p := Some (File b))\<rparr>"

text \<open>
  \<^verbatim>\<open>open(file_path_obj, 'rb')\<close> raises when the file may not be read. The result is
  the text of the exception, if any.
  \<^verbatim>\<open>open(destination_path, 'wb')\<close>: an existing file is truncated at once when it may
  be written, a directory raises, a missing file is created when the uploads directory is
  there and may be written.
\<close>

definition is_a_directory :: "path \<Rightarrow> string" where
  \<comment> \<open>the text of \<^verbatim>\<open>IsADirectoryError\<close>, with the path in quotes\<close>
  "is_a_directory p = ''[Errno 21] Is a directory: '' @ [CHR 0x27] @ str_of_path p @ [CHR 0x27]"

definition no_such_file :: "path \<Rightarrow> string" where
  "no_such_file p = ''[Errno 2] No such file or directory: '' @ [CHR 0x27] @ str_of_path p @ [CHR 0x27]"

definition permission_denied :: "path \<Rightarrow> string" where
  "permission_denied p = ''[Errno 13] Permission denied: '' @ [CHR 0x27] @ str_of_path p @ [CHR 0x27]"

definition open_rb :: "path \<Rightarrow> server \<Rightarrow> string option" where
  "open_rb p s =
     (case disk s (resolve s p) of
        None \<Rightarrow> Some (no_such_file p)
      | Some Dir \<Rightarrow> Some (is_a_directory p)
      | Some (File _) \<Rightarrow> if readable s (resolve s p) then None else Some (permission_denied p))"

definition open_wb :: "path \<Rightarrow> server \<Rightarrow> string + server" where
  "open_wb p s =
     (case disk s (resolve s p) of
        Some Dir \<Rightarrow> Inl (is_a_directory p)
      | Some (File _) \<Rightarrow>
          if writable s (resolve s p) then Inr (write_file p [] s) else Inl (permission_denied p)
      | None \<Rightarrow>
          (if disk s (resolve s (uploads_dir s)) = Some Dir then
             if writable s (resolve s (uploads_dir s)) then Inr (write_file p [] s)
             else Inl (permission_denied p)
           else Inl (no_such_file p)))"

text \<open>The \<^verbatim>\<open>except Exception\<close> block of \<^verbatim>\<open>_upload_file\<close>.\<close>

definition upload_error :: "nat \<Rightarrow> string \<Rightarrow> server \<Rightarrow> server" where
  "upload_error c error s =
     send c [(''type'', ''error''), (''content'', ''File upload error: '' @ error)] (log_error error s)"

definition joinpath :: "path \<Rightarrow> string \<Rightarrow> path" where
  \<comment> \<open>\<^verbatim>\<open>d / n\<close>; an empty name gives the directory itself\<close>
  "joinpath d n = (if n = [] then d else d @ [n])"

definition upload_file :: "nat \<Rightarrow> string \<Rightarrow> server \<Rightarrow> server" where
  "upload_file c file_path s =
     (let file_path_obj = absolute s (strip file_path) in
      if \<not> exists_path s file_path_obj then
        send c [(''type'', ''error''), (''content'', ''File not found: '' @ str_of_path file_path_obj)] s
      else if \<not> is_file s file_path_obj then
        send c [(''type'', ''error''), (''content'', ''Path is not a file: '' @ str_of_path file_path_obj)] s
      else
        let file_name = path_name file_path_obj;
            destination_path = joinpath (uploads_dir s) file_name
        in case open_rb file_path_obj s of
             Some error \<Rightarrow> upload_error c error s
           | None \<Rightarrow>
          (case open_wb destination_path s of
             Inl error \<Rightarrow> upload_error c error s
           | Inr s1 \<Rightarrow>
               let content = read_file s1 file_path_obj;
                   s2 = write_file destination_path content s1;
                   s3 = send c [(''type'', ''system''),
                                (''content'', ''File '' @ file_name @ '' uploaded successfully (''
                                   @ str_of_nat (length content) @ '' bytes)'')] s2
               in (case current_room (client_at s3 c) of
                     None \<Rightarrow> s3
                   | Some r \<Rightarrow>
                       upd_room r (\<lambda>rm. rm\<lparr>message_queue :=
                          queue_put [(''type'', ''system''),
                                     (''content'', str_of_username (username (client_at s3 c))
                                        @ '' uploaded file: '' @ file_name)] (message_queue rm)\<rparr>) s3)))"

text \<open>The file that an upload of \<open>file_path\<close> reads, and the file that it writes.\<close>

definition upload_source :: "server \<Rightarrow> string \<Rightarrow> path" where
  "upload_source s file_path = absolute s (strip file_path)"

definition upload_destination :: "server \<Rightarrow> string \<Rightarrow> path" where
  "upload_destination s file_path = joinpath (uploads_dir s) (path_name (upload_source s file_path))"

subsection \<open>The command interpreter and the read duty\<close>

definition help_text :: message where
  "help_text =
     [(''type'', ''system''),
      (''content'', join [CHR 0x0A]
         [''=== Available Commands ==='',
          ''/help - show this help'',
          ''/list - show room members'',
          ''/private @name message - send private message'',
          ''/file - upload file'',
          ''/quit - exit chat''])]"

text \<open>
  \<^verbatim>\<open>_handle_command\<close>: the exception that leaves it (if any), the state, and the rest
  of the inbound stream (\<^verbatim>\<open>/file\<close> without a path reads one more line).
\<close>

definition handle_command ::
  "nat \<Rightarrow> string \<Rightarrow> read_event list \<Rightarrow> server \<Rightarrow> exn option \<times> server \<times> read_event list" where
  "handle_command c command evs s =
     (let parts = split1 command in
      case parts of
        [] \<Rightarrow> (Some IndexError, s, evs)
      | p0 # _ \<Rightarrow>
        let command_type = lower p0 in
        if command_type = ''/help'' then (None, send c help_text s, evs)
        else if command_type = ''/list'' then
          (case current_room (client_at s c) of
             None \<Rightarrow> (None, s, evs)
           | Some r \<Rightarrow>
               let usernames = map (\<lambda>member. username (client_at s member)) (members (room_at s r)) in
               if None \<in> set usernames then (Some TypeError, s, evs)
               else (None, send c [(''type'', ''system''),
                                   (''content'', ''Room members: '' @ join '', '' (map the usernames))] s, evs))
        else if command_type = ''/private'' then
          (if length parts > 1 then
             let remainder = parts ! 1;
                 private_parts = split1 remainder
             in if length private_parts \<ge> 2 then
                  let to_username = lstrip_at (private_parts ! 0);
                      text = private_parts ! 1
                  in case current_room (client_at s c) of
                       None \<Rightarrow> (None, s, evs)
                     | Some r \<Rightarrow>
                         let (success, s1) = send_private_message r c to_username text s;
                             response =
                               (if success
                                then [(''type'', ''system''), (''content'', ''Private message sent to '' @ to_username)]
                                else [(''type'', ''error''), (''content'', ''User '' @ to_username @ '' not found'')])
                         in (None, send c response s1, evs)
                else (None, s, evs)
           else (None, s, evs))
        else if command_type = ''/file'' then
          (if length parts > 1 then (None, upload_file c (parts ! 1) s, evs)
           else
             let s1 = send c [(''type'', ''system''), (''content'', ''Send file path to upload'')] s;
                 (file_path, rest, s2) = receive_message evs s1
             in if falsy file_path then (None, s2, rest)
                else (None, upload_file c (the file_path) s2, rest))
        else if command_type = ''/quit'' then (Some CancelledError, s, evs)
        else (None, s, evs))"

text \<open>
  \<^verbatim>\<open>_receive_from_client\<close>: the loop ends when \<^verbatim>\<open>receive_message\<close> returns a falsy
  value, or with the exception that a command raises.
\<close>

function receive_from_client :: "nat \<Rightarrow> read_event list \<Rightarrow> server \<Rightarrow> exn option \<times> server" where
  "receive_from_client c evs s =
     (case receive_message evs s of
        (message, rest, s1) \<Rightarrow>
          if falsy message then (None, s1)
          else if startswith_slash (the message) then
            (case handle_command c (the message) rest s1 of
               (Some e, s2, rest2) \<Rightarrow> (Some e, s2)
             | (None, s2, rest2) \<Rightarrow> receive_from_client c rest2 s2)
          else
            (case current_room (client_at s1 c) of
               Some r \<Rightarrow> receive_from_client c rest (post_message r c (the message) s1)
             | None \<Rightarrow> receive_from_client c rest s1))"
  by pat_completeness auto
termination
proof (relation "measure (\<lambda>(c, evs, s). length evs)")
  show "wf (measure (\<lambda>(c, evs, s). length evs))" by simp
next
  fix c :: nat and evs s x y xa ya xb yb xc yc
  assume a: "(x, y) = receive_message evs s" "(xa, ya) = y" "\<not> falsy x"
    and b: "(xb, yb) = handle_command c (the x) xa ya" "(xc, yc) = yb"
  from a have "length xa < length evs"
    by (auto simp: receive_message_def falsy_def split: list.splits read_event.splits if_splits)
  moreover from b have "length yc \<le> length xa"
    by (auto simp: handle_command_def receive_message_def Let_def
             split: list.splits read_event.splits if_splits option.splits prod.splits)
  ultimately show "((c, yc, xc), c, evs, s) \<in> measure (\<lambda>(c, evs, s). length evs)"
    by simp
next
  fix c :: nat and evs s x y xa ya
  assume a: "(x, y) = receive_message evs s" "(xa, ya) = y" "\<not> falsy x"
  then show "((c, xa, ya), c, evs, s) \<in> measure (\<lambda>(c, evs, s). length evs)"
    by (auto simp: receive_message_def falsy_def split: list.splits read_event.splits if_splits)
next
  fix c :: nat and evs s x y xa ya x2
  assume a: "(x, y) = receive_message evs s" "(xa, ya) = y" "\<not> falsy x"
  then show "((c, xa, post_message x2 c (the x) ya), c, evs, s) \<in> measure (\<lambda>(c, evs, s). length evs)"
    by (auto simp: receive_message_def falsy_def split: list.splits read_event.splits if_splits)
qed

declare receive_from_client.simps [simp del]

subsection \<open>Connection lifecycle\<close>

text \<open>
  \<^verbatim>\<open>_disconnect_client\<close>. \<^verbatim>\<open>del self.rooms[name]\<close> raises \<^verbatim>\<open>KeyError\<close> when the name
  is not registered; the exception leaves the method before the writer is closed, and
  what was changed up to there stays changed.
\<close>

definition close_writer :: "nat \<Rightarrow> server \<Rightarrow> server" where
  "close_writer c s = upd_client c (\<lambda>cl. cl\<lparr>writer := (writer cl)\<lparr>closed := True\<rparr>\<rparr>) s"

definition disconnect_client :: "nat \<Rightarrow> server \<Rightarrow> exn option \<times> server" where
  "disconnect_client c s =
     (let s1 = s\<lparr>clients := clients s - {c}\<rparr> in
      case current_room (client_at s1 c) of
        None \<Rightarrow> (None, close_writer c s1)
      | Some r \<Rightarrow>
          let s2 = remove_member r c s1 in
          if length (members (room_at s2 r)) = 0 then
            (let n = name (room_at s2 r) in
             if n \<in> dom (rooms s2)
             then (None, close_writer c (s2\<lparr>rooms := (rooms s2)(n := None)\<rparr>))
             else (Some (KeyError n), s2))
          else (None, close_writer c s2))"

text \<open>
  The handshake of \<^verbatim>\<open>handle_client\<close> (up to the welcome message): \<open>None\<close> when it
  returns early, otherwise the rest of the inbound stream.
\<close>

definition get_or_create_room :: "string \<Rightarrow> server \<Rightarrow> nat \<times> server" where
  "get_or_create_room room_name s =
     (case rooms s room_name of
        Some r \<Rightarrow> (r, s)
      | None \<Rightarrow>
          (next_room s,
           s\<lparr>rooms := (rooms s)(room_name \<mapsto> next_room s),
             room_at := (room_at s)(next_room s := ChatRoom_init room_name),
             next_room := Suc (next_room s)\<rparr>))"

definition handshake :: "nat \<Rightarrow> read_event list \<Rightarrow> server \<Rightarrow> read_event list option \<times> server" where
  "handshake c evs s =
     (let s1 = send c [(''type'', ''request''), (''message'', ''Enter your username:'')] s;
          (username', evs1, s2) = receive_message evs s1
      in if falsy username' then (None, s2)
         else
           let s3 = upd_client c (\<lambda>cl. cl\<lparr>username := username'\<rparr>) s2;
               s4 = send c [(''type'', ''request''), (''message'', ''Enter room name:'')] s3;
               (room_name, evs2, s5) = receive_message evs1 s4
           in if falsy room_name then (None, s5)
              else
                let (room, s6) = get_or_create_room (the room_name) s5;
                    s7 = upd_client c (\<lambda>cl. cl\<lparr>current_room := Some room\<rparr>) s6;
                    s8 = add_member room c s7;
                    s9 = send c [(''type'', ''success''),
                                 (''message'', ''Welcome to room '' @ [CHR 0x27] @ the room_name @ [CHR 0x27]
                                    @ ''! (Type /help for commands)'')] s8
                in (Some evs2, s9))"

text \<open>
  \<^verbatim>\<open>handle_client\<close> for one connection, run without other connections in between:
  the new connection object, the handshake, the read duty until it ends, then the
  \<^verbatim>\<open>finally\<close> block. The write duty runs beside the read duty and never ends by itself
  (its loops leave only on cancellation); its steps are \<open>broadcast_step\<close> and
  \<open>private_step\<close> below. An exception of the read duty stays in its task.
\<close>

definition accept_client :: "writer \<Rightarrow> server \<Rightarrow> nat \<times> server" where
  "accept_client w s =
     (next_client s,
      s\<lparr>client_at := (client_at s)(next_client s := ClientConnection_init w),
        clients := insert (next_client s) (clients s),
        next_client := Suc (next_client s)\<rparr>)"

definition handle_client :: "writer \<Rightarrow> read_event list \<Rightarrow> server \<Rightarrow> exn option \<times> server" where
  "handle_client w evs s =
     (let (c, s0) = accept_client w s in
      case handshake c evs s0 of
        (None, s1) \<Rightarrow> disconnect_client c s1
      | (Some rest, s1) \<Rightarrow> disconnect_client c (snd (receive_from_client c rest s1)))"

subsection \<open>The write duty\<close>

text \<open>
  One iteration of \<^verbatim>\<open>_broadcast_room_messages(client)\<close>: \<^verbatim>\<open>get\<close> takes the oldest
  message off the queue of the client's room and \<^verbatim>\<open>send_message\<close> writes it to this
  client. With an empty queue the loop waits (no step). Every member's loop takes from
  the same queue; a schedule says whose loop runs next.
\<close>

definition broadcast_step :: "nat \<Rightarrow> server \<Rightarrow> server" where
  "broadcast_step c s =
     (case current_room (client_at s c) of
        None \<Rightarrow> s
      | Some room \<Rightarrow>
          (case message_queue (room_at s room) of
             [] \<Rightarrow> s
           | message # q \<Rightarrow> send c message (upd_room room (\<lambda>rm. rm\<lparr>message_queue := q\<rparr>) s)))"

definition private_step :: "nat \<Rightarrow> server \<Rightarrow> server" where
  "private_step c s =
     (case private_queue (client_at s c) of
        [] \<Rightarrow> s
      | message # q \<Rightarrow> send c message (upd_client c (\<lambda>cl. cl\<lparr>private_queue := q\<rparr>) s))"

fun run_broadcast :: "nat list \<Rightarrow> server \<Rightarrow> server" where
  "run_broadcast [] s = s"
| "run_broadcast (c # cs) s = run_broadcast cs (broadcast_step c s)"

definition received :: "server \<Rightarrow> nat \<Rightarrow> message list" where
  "received s c = wire (writer (client_at s c))"

subsection \<open>Sequences of joins and leaves\<close>

datatype room_op = Join nat | Leave nat

fun apply_op :: "nat \<Rightarrow> room_op \<Rightarrow> server \<Rightarrow> server" where
  "apply_op r (Join c) s = add_member r c s"
| "apply_op r (Leave c) s = remove_member r c s"

fun apply_ops :: "nat \<Rightarrow> room_op list \<Rightarrow> server \<Rightarrow> server" where
  "apply_ops r [] s = s"
| "apply_ops r (x # xs) s = apply_ops r xs (apply_op r x s)"

fun joins :: "room_op list \<Rightarrow> nat" where
  "joins [] = 0"
| "joins (Join c # xs) = Suc (joins xs)"
| "joins (Leave c # xs) = joins xs"

fun leaves :: "room_op list \<Rightarrow> nat" where
  "leaves [] = 0"
| "leaves (Join c # xs) = leaves xs"
| "leaves (Leave c # xs) = Suc (leaves xs)"

definition member_count :: "server \<Rightarrow> nat \<Rightarrow> nat" where
  \<comment> \<open>\<^verbatim>\<open>len(room.members)\<close>\<close>
  "member_count s r = length (members (room_at s r))"

text \<open>
  The sequences the server itself produces: a connection joins a room it is not in
  (once, in its handshake) and leaves a room it is in (once, in its teardown).
\<close>

fun joins_and_leaves_alternate :: "nat list \<Rightarrow> room_op list \<Rightarrow> bool" where
  "joins_and_leaves_alternate ms [] = True"
| "joins_and_leaves_alternate ms (Join c # xs) = (c \<notin> set ms \<and> joins_and_leaves_alternate (set_add c ms) xs)"
| "joins_and_leaves_alternate ms (Leave c # xs) = (c \<in> set ms \<and> joins_and_leaves_alternate (set_discard c ms) xs)"

subsection \<open>What a step writes to a client\<close>

text \<open>
  Between two states, the client was sent some more messages (possibly none), all of
  them with a given property.
\<close>

definition wrote :: "(message \<Rightarrow> bool) \<Rightarrow> nat \<Rightarrow> server \<Rightarrow> server \<Rightarrow> bool" where
  "wrote P c s s' = (\<exists>ms. received s' c = received s c @ ms \<and> (\<forall>m\<in>set ms. P m))"

text \<open>A message with a content and no timestamp; one with a \<^verbatim>\<open>message\<close> field only.\<close>

definition untimed :: "message \<Rightarrow> bool" where
  "untimed m = (has_key m ''content'' \<and> \<not> has_key m ''time'')"

definition bare :: "message \<Rightarrow> bool" where
  "bare m = (has_key m ''message'' \<and> \<not> has_key m ''content'' \<and> \<not> has_key m ''time'')"

subsection \<open>A concrete server\<close>

text \<open>
  \<^verbatim>\<open>AsyncChatServer.__init__\<close> in a given environment (clock, directories, file system):
  no rooms, no clients, and the uploads directory made if nothing is there (a regular
  file there makes the constructor raise, which is left out).
\<close>

definition new_writer :: writer where
  "new_writer = \<lparr>wire = [], broken = None, closed = False\<rparr>"

definition AsyncChatServer_init ::
  "(nat \<Rightarrow> string) \<Rightarrow> path \<Rightarrow> path \<Rightarrow> (path \<Rightarrow> nat) \<Rightarrow> (nat \<Rightarrow> node option)
     \<Rightarrow> (nat \<Rightarrow> bool) \<Rightarrow> (nat \<Rightarrow> bool) \<Rightarrow> server" where
  "AsyncChatServer_init clock program_dir working_dir res dsk rd wr =
     \<lparr>rooms = Map.empty, clients = {},
      room_at = (\<lambda>_. ChatRoom_init []),
      client_at = (\<lambda>_. ClientConnection_init new_writer),
      next_room = 0, next_client = 0,
      time_source = clock, ticks = 0, error_log = [],
      uploads_dir = program_dir @ [''uploaded_files''],
      cwd = working_dir,
      resolve = res,
      disk = (if dsk (res (program_dir @ [''uploaded_files''])) = None
              then dsk(res (program_dir @ [''uploaded_files'']) := Some Dir) else dsk),
      readable = rd, writable = wr\<rparr>"

definition demo_resolve :: "path \<Rightarrow> nat" where
  "demo_resolve p =
     (if p = [''srv'', ''uploaded_files''] then 1
      else if p = [''srv'', ''uploaded_files'', ''a.txt''] then 2
      else if p = [''home'', ''a.txt''] then 3
      else if p = [''home'', ''docs''] then 4
      else if p = [''srv'', ''uploaded_files'', ''docs''] then 5
      else if p = [''home'', ''sub'', ''docs''] then 6
      else if p = [''home'', ''secret.txt''] then 7
      else 0)"

definition demo_disk :: "nat \<Rightarrow> node option" where
  "demo_disk i =
     (if i = 3 then Some (File ''hello'')
      else if i = 4 then Some Dir
      else if i = 5 then Some Dir
      else if i = 6 then Some (File ''notes'')
      else if i = 7 then Some (File ''key'')
      else None)"

definition demo_server :: server where
  "demo_server =
     AsyncChatServer_init (\<lambda>_. ''2024-01-01 12:00:00'') [''srv''] [''srv''] demo_resolve demo_disk
       (\<lambda>i. i \<noteq> 7) (\<lambda>_. True)"

text \<open>
  Connections 0 (Alice) and 1 (Bob) are members of room 0, registered as "lobby";
  the queues are empty and nothing has been written to either of them.
\<close>

definition alice_and_bob :: server where
  "alice_and_bob =
     demo_server
       \<lparr>rooms := [''lobby'' \<mapsto> 0],
        clients := {0, 1},
        room_at := (room_at demo_server)
          (0 := \<lparr>name = ''lobby'', members = [0, 1], message_queue = []\<rparr>),
        client_at := (client_at demo_server)
          (0 := \<lparr>username = Some ''Alice'', current_room = Some 0, private_queue = [], writer = new_writer\<rparr>,
           1 := \<lparr>username = Some ''Bob'', current_room = Some 0, private_queue = [], writer = new_writer\<rparr>),
        next_room := 1,
        next_client := 2\<rparr>"

text \<open>The same after Bob's connection was torn down: Alice is the only member.\<close>

definition alice_alone :: server where
  "alice_alone = snd (disconnect_client 1 alice_and_bob)"

text \<open>The same state, except that writing to Bob's connection fails.\<close>

definition bob_broken :: server where
  "bob_broken =
     upd_client 1 (\<lambda>cl. cl\<lparr>writer := (writer cl)\<lparr>broken := Some ''Connection lost''\<rparr>\<rparr>) alice_and_bob"

text \<open>Alice has uploaded \<^verbatim>\<open>/home/a.txt\<close>: its copy is in the uploads directory.\<close>

definition a_txt_uploaded :: server where
  "a_txt_uploaded = upload_file 0 ''/home/a.txt'' alice_and_bob"

text \<open>Alice has posted "hello" to the room of Alice and Bob; nobody has read it yet.\<close>

definition hello_posted :: server where
  "hello_posted = post_message 0 0 ''hello'' alice_and_bob"

definition hello_message :: message where
  "hello_message =
     [(''type'', ''message''), (''sender'', ''Alice''), (''content'', ''hello''),
      (''time'', ''2024-01-01 12:00:00'')]"

text \<open>Then Carol connects and joins the same room.\<close>

definition carol_joined :: server where
  "carol_joined =
     snd (handshake 2 [Line ''Carol\<newline>'', Line ''lobby\<newline>'']
            (snd (accept_client new_writer hello_posted)))"

text \<open>The messages waiting in room 0 and those written to connections 0 and 1.\<close>

definition pending_and_received :: "server \<Rightarrow> nat" where
  "pending_and_received s =
     length (message_queue (room_at s 0)) + length (received s 0) + length (received s 1)"

section \<open>Properties\<close>

subsection \<open>The concrete state\<close>

lemma alice_and_bob_room [simp]:
  "rooms alice_and_bob ''lobby'' = Some 0"
  "members (room_at alice_and_bob 0) = [0, 1]"
  "name (room_at alice_and_bob 0) = ''lobby''"
  "message_queue (room_at alice_and_bob 0) = []"
  by (simp_all add: alice_and_bob_def)

lemma alice_and_bob_clients [simp]:
  "client_at alice_and_bob 0 = \<lparr>username = Some ''Alice'', current_room = Some 0, private_queue = [], writer = new_writer\<rparr>"
  "client_at alice_and_bob (Suc 0) = \<lparr>username = Some ''Bob'', current_room = Some 0, private_queue = [], writer = new_writer\<rparr>"
  by (simp_all add: alice_and_bob_def)

lemma alice_and_bob_now [simp]: "now alice_and_bob = ''2024-01-01 12:00:00''"
  by (simp add: alice_and_bob_def now_def demo_server_def AsyncChatServer_init_def)

lemma find_member_Some:
  "find_member s n ms = Some t \<Longrightarrow> t \<in> set ms \<and> username (client_at s t) = Some n"
  by (induction ms) (auto split: if_splits)

lemma find_member_None:
  "(find_member s n ms = None) = (\<forall>m\<in>set ms. username (client_at s m) \<noteq> Some n)"
  by (induction ms) auto

subsection \<open>Private messages\<close>

text \<open>
  C2. \<^verbatim>\<open>send_private_message(from_client, to_username, content)\<close> on a room (the
  command interpreter calls it on the sender's current room) returns \<^verbatim>\<open>True\<close> exactly
  when the room has a member whose username is \<open>to_username\<close>. Then one such member
  has exactly one message appended to its private queue, with type \<^verbatim>\<open>private\<close>, the
  sender's username, the content and the timestamp, and every other private queue is
  as before. Otherwise it returns \<^verbatim>\<open>False\<close> and the state is unchanged.
\<close>

theorem send_private_message_iff_member:
  assumes "send_private_message r from_client to_username content s = (ok, s')"
  shows "(ok \<longleftrightarrow> (\<exists>m\<in>set (members (room_at s r)). username (client_at s m) = Some to_username))
       \<and> (ok \<longrightarrow> (\<exists>t\<in>set (members (room_at s r)).
               username (client_at s t) = Some to_username
             \<and> private_queue (client_at s' t) =
                 private_queue (client_at s t) @
                   [[(''type'', ''private''),
                     (''from'', str_of_username (username (client_at s from_client))),
                     (''content'', content),
                     (''time'', now s)]]
             \<and> (\<forall>c. c \<noteq> t \<longrightarrow> private_queue (client_at s' c) = private_queue (client_at s c))))
       \<and> (\<not> ok \<longrightarrow> s' = s)"
proof (cases "find_member s to_username (members (room_at s r))")
  case None
  with assms have "ok = False" "s' = s"
    by (simp_all add: send_private_message_def)
  moreover from None have "\<forall>m\<in>set (members (room_at s r)). username (client_at s m) \<noteq> Some to_username"
    by (simp add: find_member_None)
  ultimately show ?thesis by simp
next
  case (Some t)
  with assms have ok: "ok = True"
    and s': "s' = upd_client t (\<lambda>cl. cl\<lparr>private_queue :=
                 queue_put (private_message s from_client content) (private_queue cl)\<rparr>) (tick s)"
    by (simp_all add: send_private_message_def)
  from Some have t: "t \<in> set (members (room_at s r))" "username (client_at s t) = Some to_username"
    using find_member_Some by blast+
  have q: "private_queue (client_at s' t) =
             private_queue (client_at s t) @ [private_message s from_client content]"
    by (simp add: s' upd_client_def tick_def queue_put_def)
  have others: "\<forall>c. c \<noteq> t \<longrightarrow> private_queue (client_at s' c) = private_queue (client_at s c)"
    by (simp add: s' upd_client_def tick_def)
  from t q others ok show ?thesis
    unfolding private_message_def by blast
qed

theorem send_private_message_iff_member_witness:
  "send_private_message 0 0 ''Bob'' ''hi'' alice_and_bob =
     (True, snd (send_private_message 0 0 ''Bob'' ''hi'' alice_and_bob))
   \<and> private_queue (client_at (snd (send_private_message 0 0 ''Bob'' ''hi'' alice_and_bob)) 1) =
       [[(''type'', ''private''), (''from'', ''Alice''), (''content'', ''hi''),
         (''time'', ''2024-01-01 12:00:00'')]]
   \<and> private_queue (client_at (snd (send_private_message 0 0 ''Bob'' ''hi'' alice_and_bob)) 0) = []
   \<and> send_private_message 0 0 ''Carol'' ''hi'' alice_and_bob = (False, alice_and_bob)"
proof -
  have a: "send_private_message 0 0 ''Bob'' ''hi'' alice_and_bob =
     (True, snd (send_private_message 0 0 ''Bob'' ''hi'' alice_and_bob))"
    by (simp add: send_private_message_def)
  have b: "send_private_message 0 0 ''Carol'' ''hi'' alice_and_bob = (False, alice_and_bob)"
    by (simp add: send_private_message_def)
  have n: "now alice_and_bob = ''2024-01-01 12:00:00''" by simp
  from send_private_message_iff_member [OF a] send_private_message_iff_member [OF b] a b n
  show ?thesis
    by (auto simp: str_of_username_def)
qed


subsection \<open>Membership count and the registry\<close>

lemma members_add_member [simp]:
  "members (room_at (add_member r c s) r) = set_add c (members (room_at s r))"
  by (simp add: add_member_def upd_room_def tick_def)

lemma members_remove_member [simp]:
  "members (room_at (remove_member r c s) r) = set_discard c (members (room_at s r))"
  by (simp add: remove_member_def upd_room_def tick_def)

lemma distinct_set_add: "distinct ms \<Longrightarrow> distinct (set_add c ms)"
  by (simp add: set_add_def)

lemma distinct_set_discard: "distinct ms \<Longrightarrow> distinct (set_discard c ms)"
  by (simp add: set_discard_def distinct_removeAll)

lemma length_set_add_new: "c \<notin> set ms \<Longrightarrow> length (set_add c ms) = Suc (length ms)"
  by (simp add: set_add_def)

lemma length_set_discard_member:
  "distinct ms \<Longrightarrow> c \<in> set ms \<Longrightarrow> Suc (length (set_discard c ms)) = length ms"
  by (induction ms) (auto simp: set_discard_def)

lemma count_alternate:
  "distinct (members (room_at s r)) \<Longrightarrow> joins_and_leaves_alternate (members (room_at s r)) ops \<Longrightarrow>
   int (member_count (apply_ops r ops s) r) = int (member_count s r) + int (joins ops) - int (leaves ops)"
proof (induction ops arbitrary: s)
  case Nil
  then show ?case by simp
next
  case (Cons x xs)
  show ?case
  proof (cases x)
    case (Join c)
    with Cons.prems have c: "c \<notin> set (members (room_at s r))"
      and rest: "joins_and_leaves_alternate (members (room_at (add_member r c s) r)) xs"
      by simp_all
    have d: "distinct (members (room_at (add_member r c s) r))"
      using Cons.prems(1) by (simp add: distinct_set_add)
    have "member_count (add_member r c s) r = Suc (member_count s r)"
      using c by (simp add: member_count_def length_set_add_new)
    with Cons.IH [OF d rest] Join show ?thesis by simp
  next
    case (Leave c)
    with Cons.prems have c: "c \<in> set (members (room_at s r))"
      and rest: "joins_and_leaves_alternate (members (room_at (remove_member r c s) r)) xs"
      by simp_all
    have d: "distinct (members (room_at (remove_member r c s) r))"
      using Cons.prems(1) by (simp add: distinct_set_discard)
    have "Suc (member_count (remove_member r c s) r) = member_count s r"
      using c Cons.prems(1) by (simp add: member_count_def length_set_discard_member)
    with Cons.IH [OF d rest] Leave show ?thesis by simp
  qed
qed

lemma alternate_take:
  "joins_and_leaves_alternate ms ops \<Longrightarrow> joins_and_leaves_alternate ms (take k ops)"
proof (induction ms ops arbitrary: k rule: joins_and_leaves_alternate.induct)
  case (1 ms)
  then show ?case by simp
next
  case (2 ms c xs)
  then show ?case by (cases k) simp_all
next
  case (3 ms c xs)
  then show ?case by (cases k) simp_all
qed

lemma set_discard_only: "set ms \<subseteq> {c} \<Longrightarrow> set_discard c ms = []"
  by (induction ms) (auto simp: set_discard_def)

lemma disconnect_last_member:
  assumes cr: "current_room (client_at s c) = Some r"
    and last: "set (members (room_at s r)) \<subseteq> {c}"
    and reg: "rooms s (name (room_at s r)) = Some r"
  shows "fst (disconnect_client c s) = None"
    and "member_count (snd (disconnect_client c s)) r = 0"
    and "rooms (snd (disconnect_client c s)) = (rooms s)(name (room_at s r) := None)"
    and "next_room (snd (disconnect_client c s)) = next_room s"
proof -
  let ?s1 = "s\<lparr>clients := clients s - {c}\<rparr>"
  let ?s2 = "remove_member r c ?s1"
  have m: "set_discard c (members (room_at s r)) = []"
    using last by (rule set_discard_only)
  have n: "name (room_at ?s2 r) = name (room_at s r)"
    by (simp add: remove_member_def upd_room_def tick_def)
  have rg: "rooms ?s2 = rooms s"
    by (simp add: remove_member_def upd_room_def tick_def)
  have nr: "next_room ?s2 = next_room s"
    by (simp add: remove_member_def upd_room_def tick_def)
  have d: "disconnect_client c s =
             (None, close_writer c (?s2\<lparr>rooms := (rooms ?s2)(name (room_at s r) := None)\<rparr>))"
    using cr reg by (simp add: disconnect_client_def Let_def m n rg domI)
  show "fst (disconnect_client c s) = None" by (simp add: d)
  show "member_count (snd (disconnect_client c s)) r = 0"
    using m by (simp add: d member_count_def close_writer_def upd_client_def)
  show "rooms (snd (disconnect_client c s)) = (rooms s)(name (room_at s r) := None)"
    by (simp add: d close_writer_def upd_client_def rg)
  show "next_room (snd (disconnect_client c s)) = next_room s"
    by (simp add: d close_writer_def upd_client_def nr)
qed

lemma get_or_create_room_new:
  assumes "rooms s n = None"
  shows "fst (get_or_create_room n s) = next_room s"
    and "rooms (snd (get_or_create_room n s)) n = Some (next_room s)"
    and "room_at (snd (get_or_create_room n s)) (next_room s) = ChatRoom_init n"
  using assms by (simp_all add: get_or_create_room_def)


lemma alice_alone_room [simp]:
  "rooms alice_alone ''lobby'' = Some 0"
  "members (room_at alice_alone 0) = [0]"
  "name (room_at alice_alone 0) = ''lobby''"
  "next_room alice_alone = 1"
  "current_room (client_at alice_alone 0) = Some 0"
  by (simp_all add: alice_alone_def disconnect_client_def remove_member_def upd_room_def
        tick_def set_discard_def close_writer_def upd_client_def Let_def)
     (simp_all add: alice_and_bob_def)

lemma rooms_add_member [simp]: "rooms (add_member r c s) = rooms s"
  by (simp add: add_member_def upd_room_def tick_def)

lemma rooms_remove_member [simp]: "rooms (remove_member r c s) = rooms s"
  by (simp add: remove_member_def upd_room_def tick_def)

lemma rooms_apply_ops: "rooms (apply_ops r ops s) = rooms s"
proof (induction ops arbitrary: s)
  case Nil
  then show ?case by simp
next
  case (Cons x xs)
  then show ?case by (cases x) simp_all
qed

lemma name_apply_ops: "name (room_at (apply_ops r ops s) r') = name (room_at s r')"
proof (induction ops arbitrary: s)
  case Nil
  then show ?case by simp
next
  case (Cons x xs)
  then show ?case
    by (cases x) (simp_all add: add_member_def remove_member_def upd_room_def tick_def)
qed

lemma set_add_member: "c \<in> set ms \<Longrightarrow> set_add c ms = ms"
  by (simp add: set_add_def)

lemma set_discard_non_member: "c \<notin> set ms \<Longrightarrow> set_discard c ms = ms"
  by (simp add: set_discard_def)

text \<open>
  C4. The members are a set: \<^verbatim>\<open>add_member\<close> of a connection that is already a member
  and \<^verbatim>\<open>remove_member\<close> of one that is not leave the members and their count as they
  are. For every sequence of calls on a room in which each \<^verbatim>\<open>add_member\<close> is for a
  connection that is not a member and each \<^verbatim>\<open>remove_member\<close> for one that is (what the
  server does: one join in the handshake, one leave in the teardown), the count after
  every prefix is the count at the start plus the joins minus the leaves, and so never
  negative. No sequence of \<^verbatim>\<open>add_member\<close> and \<^verbatim>\<open>remove_member\<close> calls changes the
  registry, whatever the count becomes: a room emptied by \<^verbatim>\<open>remove_member\<close> stays
  registered under its name. It is \<^verbatim>\<open>_disconnect_client\<close> that, when it removes the last
  member of a registered room, removes the name from the registry, and the next reference
  to the name creates a new room object, different from the old one, with no members and
  an empty queue.
\<close>

theorem membership_count_and_deregistration:
  "(distinct (members (room_at s r)) \<and> joins_and_leaves_alternate (members (room_at s r)) ops \<longrightarrow>
      (\<forall>k\<le>length ops.
         int (member_count (apply_ops r (take k ops) s) r)
           = int (member_count s r) + int (joins (take k ops)) - int (leaves (take k ops))
       \<and> leaves (take k ops) \<le> member_count s r + joins (take k ops)))
   \<and> (current_room (client_at s c) = Some r \<and> set (members (room_at s r)) \<subseteq> {c}
        \<and> rooms s (name (room_at s r)) = Some r \<and> r < next_room s \<longrightarrow>
       (let n = name (room_at s r);
            s' = snd (disconnect_client c s);
            r' = fst (get_or_create_room n s');
            s'' = snd (get_or_create_room n s')
        in fst (disconnect_client c s) = None
         \<and> member_count s' r = 0
         \<and> rooms s' n = None
         \<and> r' \<noteq> r
         \<and> rooms s'' n = Some r'
         \<and> room_at s'' r' = ChatRoom_init n))
   \<and> (c \<in> set (members (room_at s r)) \<longrightarrow>
         members (room_at (add_member r c s) r) = members (room_at s r)
       \<and> member_count (add_member r c s) r = member_count s r)
   \<and> (c \<notin> set (members (room_at s r)) \<longrightarrow>
         members (room_at (remove_member r c s) r) = members (room_at s r)
       \<and> member_count (remove_member r c s) r = member_count s r)
   \<and> rooms (apply_ops r ops s) = rooms s
   \<and> name (room_at (apply_ops r ops s) r) = name (room_at s r)"
proof -
  have counts: "\<forall>k\<le>length ops.
         int (member_count (apply_ops r (take k ops) s) r)
           = int (member_count s r) + int (joins (take k ops)) - int (leaves (take k ops))
       \<and> leaves (take k ops) \<le> member_count s r + joins (take k ops)"
    if a: "distinct (members (room_at s r)) \<and> joins_and_leaves_alternate (members (room_at s r)) ops"
  proof (intro allI impI)
    fix k
    from a have "joins_and_leaves_alternate (members (room_at s r)) (take k ops)"
      by (simp add: alternate_take)
    with a have eq: "int (member_count (apply_ops r (take k ops) s) r)
        = int (member_count s r) + int (joins (take k ops)) - int (leaves (take k ops))"
      by (simp add: count_alternate)
    then show "int (member_count (apply_ops r (take k ops) s) r)
        = int (member_count s r) + int (joins (take k ops)) - int (leaves (take k ops))
        \<and> leaves (take k ops) \<le> member_count s r + joins (take k ops)"
      by linarith
  qed
  have dereg: "let n = name (room_at s r);
            s' = snd (disconnect_client c s);
            r' = fst (get_or_create_room n s');
            s'' = snd (get_or_create_room n s')
        in fst (disconnect_client c s) = None
         \<and> member_count s' r = 0
         \<and> rooms s' n = None
         \<and> r' \<noteq> r
         \<and> rooms s'' n = Some r'
         \<and> room_at s'' r' = ChatRoom_init n"
    if a: "current_room (client_at s c) = Some r \<and> set (members (room_at s r)) \<subseteq> {c}
        \<and> rooms s (name (room_at s r)) = Some r \<and> r < next_room s"
  proof -
    let ?n = "name (room_at s r)"
    let ?s' = "snd (disconnect_client c s)"
    from a have d: "fst (disconnect_client c s) = None" "member_count ?s' r = 0"
      "rooms ?s' = (rooms s)(?n := None)" "next_room ?s' = next_room s"
      by (simp_all add: disconnect_last_member)
    from d(3) have none: "rooms ?s' ?n = None" by simp
    note g = get_or_create_room_new [OF none]
    from a d(4) have "fst (get_or_create_room ?n ?s') \<noteq> r"
      by (simp add: g(1))
    moreover have "rooms (snd (get_or_create_room ?n ?s')) ?n = Some (fst (get_or_create_room ?n ?s'))"
      by (simp only: g(1) g(2))
    moreover have "room_at (snd (get_or_create_room ?n ?s')) (fst (get_or_create_room ?n ?s')) = ChatRoom_init ?n"
      by (simp only: g(1) g(3))
    ultimately show ?thesis
      using d(1) d(2) none by (simp only: Let_def simp_thms)
  qed
  have again: "members (room_at (add_member r c s) r) = members (room_at s r)
       \<and> member_count (add_member r c s) r = member_count s r"
    if "c \<in> set (members (room_at s r))"
    using that by (simp add: member_count_def set_add_member)
  have absent: "members (room_at (remove_member r c s) r) = members (room_at s r)
       \<and> member_count (remove_member r c s) r = member_count s r"
    if "c \<notin> set (members (room_at s r))"
    using that by (simp add: member_count_def set_discard_non_member)
  have reg: "rooms (apply_ops r ops s) = rooms s
      \<and> name (room_at (apply_ops r ops s) r) = name (room_at s r)"
    by (simp add: rooms_apply_ops name_apply_ops)
  from counts dereg again absent reg show ?thesis by blast
qed

theorem membership_count_and_deregistration_witness:
  "distinct (members (room_at alice_and_bob 0))
   \<and> joins_and_leaves_alternate (members (room_at alice_and_bob 0)) [Leave 0, Leave 1, Join 0]
   \<and> member_count (apply_ops 0 [Leave 0, Leave 1] alice_and_bob) 0 = 0
   \<and> member_count (apply_ops 0 [Leave 0, Leave 1, Join 0] alice_and_bob) 0 = 1
   \<and> rooms (apply_ops 0 [Leave 0, Leave 1, Join 0] alice_and_bob) = rooms alice_and_bob
   \<and> current_room (client_at alice_alone 0) = Some 0
   \<and> set (members (room_at alice_alone 0)) \<subseteq> {0}
   \<and> rooms alice_alone (name (room_at alice_alone 0)) = Some 0
   \<and> 0 < next_room alice_alone
   \<and> fst (disconnect_client 0 alice_alone) = None
   \<and> rooms (snd (disconnect_client 0 alice_alone)) ''lobby'' = None
   \<and> fst (get_or_create_room ''lobby'' (snd (disconnect_client 0 alice_alone))) \<noteq> 0
   \<and> 0 \<in> set (members (room_at alice_and_bob 0))
   \<and> members (room_at (add_member 0 0 alice_and_bob) 0) = [0, 1]
   \<and> member_count (add_member 0 0 alice_and_bob) 0 = 2
   \<and> 2 \<notin> set (members (room_at alice_and_bob 0))
   \<and> members (room_at (remove_member 0 2 alice_and_bob) 0) = [0, 1]
   \<and> member_count (remove_member 0 2 alice_and_bob) 0 = 2"
proof -
  have h: "distinct (members (room_at alice_and_bob 0))
      \<and> joins_and_leaves_alternate (members (room_at alice_and_bob 0)) [Leave 0, Leave 1, Join 0]"
    by (simp add: set_discard_def)
  have c: "member_count alice_and_bob 0 = 2"
    by (simp add: member_count_def)
  have g: "current_room (client_at alice_alone 0) = Some 0
      \<and> set (members (room_at alice_alone 0)) \<subseteq> {0}
      \<and> rooms alice_alone (name (room_at alice_alone 0)) = Some 0 \<and> 0 < next_room alice_alone"
    by simp
  have m: "0 \<in> set (members (room_at alice_and_bob 0))" "2 \<notin> set (members (room_at alice_and_bob 0))"
    "members (room_at alice_and_bob 0) = [0, 1]"
    by simp_all
  from membership_count_and_deregistration [of alice_and_bob 0 "[Leave 0, Leave 1, Join 0]"] h c
  have t: "(\<forall>k\<le>3. int (member_count (apply_ops 0 (take k [Leave 0, Leave 1, Join 0]) alice_and_bob) 0)
           = 2 + int (joins (take k [Leave 0, Leave 1, Join 0])) - int (leaves (take k [Leave 0, Leave 1, Join 0])))"
    and rg: "rooms (apply_ops 0 [Leave 0, Leave 1, Join 0] alice_and_bob) = rooms alice_and_bob"
    by simp_all
  from membership_count_and_deregistration [of alice_alone 0 "[]" 0] g
  have u: "fst (disconnect_client 0 alice_alone) = None
         \<and> rooms (snd (disconnect_client 0 alice_alone)) ''lobby'' = None
         \<and> fst (get_or_create_room ''lobby'' (snd (disconnect_client 0 alice_alone))) \<noteq> 0"
    by (simp add: Let_def)
  from membership_count_and_deregistration [of alice_and_bob 0 "[]" 0] m(1) c
  have ag: "members (room_at (add_member 0 0 alice_and_bob) 0) = members (room_at alice_and_bob 0)
        \<and> member_count (add_member 0 0 alice_and_bob) 0 = 2"
    by simp
  from membership_count_and_deregistration [of alice_and_bob 0 "[]" 2] m(2) c
  have ab: "members (room_at (remove_member 0 2 alice_and_bob) 0) = members (room_at alice_and_bob 0)
        \<and> member_count (remove_member 0 2 alice_and_bob) 0 = 2"
    by simp
  from t [rule_format, of 2] have "member_count (apply_ops 0 [Leave 0, Leave 1] alice_and_bob) 0 = 0"
    by (simp add: numeral_2_eq_2)
  moreover from t [rule_format, of 3] have "member_count (apply_ops 0 [Leave 0, Leave 1, Join 0] alice_and_bob) 0 = 1"
    by simp
  ultimately show ?thesis using h g u rg ag ab m(3) by simp
qed

text \<open>
  As stated for every sequence of calls, the count is not joins minus leaves: in the
  room \<^verbatim>\<open>den\<close>, just created and empty, two \<^verbatim>\<open>add_member\<close> calls for Alice give the
  count 1, not 2. And the count reaching zero does not remove the room from the registry:
  after \<^verbatim>\<open>remove_member\<close> for Alice and for Bob the room \<^verbatim>\<open>lobby\<close> has no members and is
  still registered, as the same room object.
\<close>

theorem membership_count_counterexample:
  "fst (get_or_create_room ''den'' alice_and_bob) = 1
   \<and> member_count (snd (get_or_create_room ''den'' alice_and_bob)) 1 = 0
   \<and> member_count (apply_ops 1 [Join 0, Join 0] (snd (get_or_create_room ''den'' alice_and_bob))) 1 = 1
   \<and> int (member_count (apply_ops 1 [Join 0, Join 0] (snd (get_or_create_room ''den'' alice_and_bob))) 1)
        \<noteq> int (joins [Join 0, Join 0]) - int (leaves [Join 0, Join 0])
   \<and> rooms alice_and_bob ''lobby'' = Some 0
   \<and> name (room_at alice_and_bob 0) = ''lobby''
   \<and> member_count alice_and_bob 0 = 2
   \<and> member_count (apply_ops 0 [Leave 0, Leave 1] alice_and_bob) 0 = 0
   \<and> rooms (apply_ops 0 [Leave 0, Leave 1] alice_and_bob) ''lobby'' = Some 0
   \<and> name (room_at (apply_ops 0 [Leave 0, Leave 1] alice_and_bob) 0) = ''lobby''"
proof -
  have g: "get_or_create_room ''den'' alice_and_bob =
      (1, alice_and_bob\<lparr>rooms := (rooms alice_and_bob)(''den'' \<mapsto> 1),
             room_at := (room_at alice_and_bob)(1 := ChatRoom_init ''den''),
             next_room := Suc 1\<rparr>)"
    by (simp add: get_or_create_room_def) (simp add: alice_and_bob_def)
  have r: "rooms (apply_ops 0 [Leave 0, Leave 1] alice_and_bob) ''lobby'' = Some 0"
    "name (room_at (apply_ops 0 [Leave 0, Leave 1] alice_and_bob) 0) = ''lobby''"
    by (simp_all only: rooms_apply_ops name_apply_ops alice_and_bob_room)
  have c: "member_count (apply_ops 0 [Leave 0, Leave 1] alice_and_bob) 0 = 0"
    "member_count alice_and_bob 0 = 2"
    by (simp_all add: member_count_def set_discard_def)
  have d: "member_count (snd (get_or_create_room ''den'' alice_and_bob)) 1 = 0"
    "member_count (apply_ops 1 [Join 0, Join 0] (snd (get_or_create_room ''den'' alice_and_bob))) 1 = 1"
    by (simp_all add: g member_count_def set_add_def ChatRoom_init_def)
  from r c d show ?thesis by (simp add: g)
qed

subsection \<open>Teardown\<close>

lemma set_discard_idem: "set_discard c (set_discard c ms) = set_discard c ms"
  by (simp add: set_discard_def)

lemma set_discard_not_member: "c \<notin> set (set_discard c ms)"
  by (simp add: set_discard_def)

lemma remove_member_fields [simp]:
  "rooms (remove_member r c s) = rooms s"
  "clients (remove_member r c s) = clients s"
  "client_at (remove_member r c s) = client_at s"
  "name (room_at (remove_member r c s) r') = name (room_at s r')"
  "members (room_at (remove_member r c s) r') =
     (if r' = r then set_discard c (members (room_at s r)) else members (room_at s r'))"
  by (simp_all add: remove_member_def upd_room_def tick_def)

lemma close_writer_fields [simp]:
  "rooms (close_writer c s) = rooms s"
  "clients (close_writer c s) = clients s"
  "room_at (close_writer c s) = room_at s"
  "current_room (client_at (close_writer c s) c') = current_room (client_at s c')"
  "username (client_at (close_writer c s) c') = username (client_at s c')"
  "ticks (close_writer c s) = ticks s"
  "time_source (close_writer c s) = time_source s"
  by (simp_all add: close_writer_def upd_client_def)

text \<open>What one teardown does to the client set, the registry and the membership sets.\<close>

lemma disconnect_client_effect:
  "clients (snd (disconnect_client c s)) = clients s - {c}"
  "current_room (client_at (snd (disconnect_client c s)) c') = current_room (client_at s c')"
  "username (client_at (snd (disconnect_client c s)) c') = username (client_at s c')"
  "name (room_at (snd (disconnect_client c s)) r') = name (room_at s r')"
  "members (room_at (snd (disconnect_client c s)) r') =
     (if current_room (client_at s c) = Some r' then set_discard c (members (room_at s r'))
      else members (room_at s r'))"
  by (auto simp: disconnect_client_def Let_def split: option.splits)

lemma disconnect_client_rooms:
  "rooms (snd (disconnect_client c s)) =
     (case current_room (client_at s c) of
        None \<Rightarrow> rooms s
      | Some r \<Rightarrow>
          if set_discard c (members (room_at s r)) = [] then (rooms s)(name (room_at s r) := None)
          else rooms s)"
  by (auto simp: disconnect_client_def Let_def split: option.splits)

lemma disconnect_client_raises:
  "fst (disconnect_client c s) =
     (case current_room (client_at s c) of
        None \<Rightarrow> None
      | Some r \<Rightarrow>
          if set_discard c (members (room_at s r)) = [] \<and> name (room_at s r) \<notin> dom (rooms s)
          then Some (KeyError (name (room_at s r))) else None)"
  by (auto simp: disconnect_client_def Let_def split: option.splits)

lemma disconnect_client_queue:
  "current_room (client_at s c) = Some r \<Longrightarrow>
   message_queue (room_at (snd (disconnect_client c s)) r) =
     message_queue (room_at s r) @
       [[(''type'', ''system''),
         (''content'', str_of_username (username (client_at s c)) @ '' left the room''),
         (''time'', now s)]]"
  by (auto simp: disconnect_client_def Let_def remove_member_def upd_room_def tick_def now_def
        queue_put_def close_writer_def upd_client_def)

text \<open>
  C9. One teardown takes the connection out of the server's client set and out of the
  membership set of its room. There is no once-only guard: \<^verbatim>\<open>handle_client\<close> runs the
  teardown a single time, in its \<^verbatim>\<open>finally\<close> block. A second teardown leaves the client
  set, the registry and every membership set as the first one left them, but it is not
  a no-op: it puts a second leave notice on the room's queue, and when the first teardown
  left the room empty the second one raises \<^verbatim>\<open>KeyError\<close> at the deregistration (before
  the channel is closed again).
\<close>

theorem second_teardown:
  "(let s1 = snd (disconnect_client c s);
        s2 = snd (disconnect_client c s1)
    in c \<notin> clients s1
     \<and> (\<forall>r. current_room (client_at s c) = Some r \<longrightarrow> c \<notin> set (members (room_at s1 r)))
     \<and> clients s2 = clients s1
     \<and> rooms s2 = rooms s1
     \<and> (\<forall>r. members (room_at s2 r) = members (room_at s1 r))
     \<and> (\<forall>r. current_room (client_at s c) = Some r \<longrightarrow>
           message_queue (room_at s2 r) =
             message_queue (room_at s1 r) @
               [[(''type'', ''system''),
                 (''content'', str_of_username (username (client_at s c)) @ '' left the room''),
                 (''time'', now s1)]]
         \<and> (members (room_at s1 r) = [] \<longrightarrow>
              fst (disconnect_client c s1) = Some (KeyError (name (room_at s r))))))"
proof -
  let ?s1 = "snd (disconnect_client c s)"
  let ?s2 = "snd (disconnect_client c ?s1)"
  have a: "c \<notin> clients ?s1"
    by (simp add: disconnect_client_effect)
  have b: "\<forall>r. current_room (client_at s c) = Some r \<longrightarrow> c \<notin> set (members (room_at ?s1 r))"
    by (simp add: disconnect_client_effect set_discard_not_member)
  have c': "clients ?s2 = clients ?s1"
    by (simp add: disconnect_client_effect)
  have m: "\<forall>r. members (room_at ?s2 r) = members (room_at ?s1 r)"
    by (simp add: disconnect_client_effect set_discard_idem)
  have d: "rooms ?s2 = rooms ?s1"
    by (auto simp: disconnect_client_rooms disconnect_client_effect set_discard_idem
          split: option.splits)
  have q: "\<forall>r. current_room (client_at s c) = Some r \<longrightarrow>
           message_queue (room_at ?s2 r) =
             message_queue (room_at ?s1 r) @
               [[(''type'', ''system''),
                 (''content'', str_of_username (username (client_at s c)) @ '' left the room''),
                 (''time'', now ?s1)]]"
  proof (intro allI impI)
    fix r assume "current_room (client_at s c) = Some r"
    then have "current_room (client_at ?s1 c) = Some r"
      by (simp add: disconnect_client_effect)
    from disconnect_client_queue [OF this]
    show "message_queue (room_at ?s2 r) =
             message_queue (room_at ?s1 r) @
               [[(''type'', ''system''),
                 (''content'', str_of_username (username (client_at s c)) @ '' left the room''),
                 (''time'', now ?s1)]]"
      by (simp add: disconnect_client_effect)
  qed
  have k: "\<forall>r. current_room (client_at s c) = Some r \<longrightarrow> members (room_at ?s1 r) = [] \<longrightarrow>
              fst (disconnect_client c ?s1) = Some (KeyError (name (room_at s r)))"
  proof (intro allI impI)
    fix r assume r: "current_room (client_at s c) = Some r" and e: "members (room_at ?s1 r) = []"
    from r e have e': "set_discard c (members (room_at s r)) = []"
      by (simp add: disconnect_client_effect)
    with r have "name (room_at s r) \<notin> dom (rooms ?s1)"
      by (simp add: disconnect_client_rooms)
    with r e' show "fst (disconnect_client c ?s1) = Some (KeyError (name (room_at s r)))"
      by (simp add: disconnect_client_raises disconnect_client_effect set_discard_def)
  qed
  from a b c' m d q k show ?thesis
    unfolding Let_def by blast
qed

theorem second_teardown_witness:
  "current_room (client_at alice_alone 0) = Some 0
   \<and> members (room_at (snd (disconnect_client 0 alice_alone)) 0) = []
   \<and> rooms (snd (disconnect_client 0 (snd (disconnect_client 0 alice_alone))))
       = rooms (snd (disconnect_client 0 alice_alone))
   \<and> fst (disconnect_client 0 (snd (disconnect_client 0 alice_alone))) = Some (KeyError ''lobby'')"
proof -
  have h: "current_room (client_at alice_alone 0) = Some 0" by simp
  have e: "members (room_at (snd (disconnect_client 0 alice_alone)) 0) = []"
    by (simp add: disconnect_client_effect set_discard_def)
  from second_teardown [of 0 alice_alone] h e show ?thesis
    by (simp add: Let_def)
qed

text \<open>
  The teardown is not idempotent: after the last member's teardown, which returns
  normally, a second one raises \<^verbatim>\<open>KeyError\<close>.
\<close>

theorem teardown_idempotent_counterexample:
  "fst (disconnect_client 0 alice_alone) = None
   \<and> fst (disconnect_client 0 (snd (disconnect_client 0 alice_alone))) = Some (KeyError ''lobby'')
   \<and> disconnect_client 0 (snd (disconnect_client 0 alice_alone)) \<noteq> disconnect_client 0 alice_alone"
proof -
  have a: "fst (disconnect_client 0 alice_alone) = None"
    by (simp add: disconnect_client_raises set_discard_def domI)
  have b: "fst (disconnect_client 0 (snd (disconnect_client 0 alice_alone))) = Some (KeyError ''lobby'')"
    by (simp add: disconnect_client_raises disconnect_client_effect disconnect_client_rooms
          set_discard_def)
  from a b have "fst (disconnect_client 0 (snd (disconnect_client 0 alice_alone)))
      \<noteq> fst (disconnect_client 0 alice_alone)" by simp
  then have "disconnect_client 0 (snd (disconnect_client 0 alice_alone)) \<noteq> disconnect_client 0 alice_alone"
    by metis
  with a b show ?thesis by simp
qed


subsection \<open>The handshake\<close>

lemma strip_blank: "\<forall>ch\<in>set d. isspace ch \<Longrightarrow> strip d = []"
  by (auto simp: strip_def dest: set_dropWhileD)

lemma receive_message_blank:
  "d \<noteq> [] \<Longrightarrow> \<forall>ch\<in>set d. isspace ch \<Longrightarrow> receive_message (Line d # evs) s = (Some [], evs, s)"
  by (simp add: receive_message_def strip_blank)

lemma receive_message_line:
  "strip d \<noteq> [] \<Longrightarrow> receive_message (Line d # evs) s = (Some (strip d), evs, s)"
  by (auto simp: receive_message_def strip_def)

lemma receive_message_eof: "receive_message [] s = (None, [], s)"
  by (simp add: receive_message_def)

lemma send_fields [simp]:
  "rooms (send c m s) = rooms s"
  "clients (send c m s) = clients s"
  "room_at (send c m s) = room_at s"
  "next_client (send c m s) = next_client s"
  "next_room (send c m s) = next_room s"
  "username (client_at (send c m s) c') = username (client_at s c')"
  "current_room (client_at (send c m s) c') = current_room (client_at s c')"
  "private_queue (client_at (send c m s) c') = private_queue (client_at s c')"
  "closed (writer (client_at (send c m s) c')) = closed (writer (client_at s c'))"
  "broken (writer (client_at (send c m s) c')) = broken (writer (client_at s c'))"
  "ticks (send c m s) = ticks s"
  "time_source (send c m s) = time_source s"
  "disk (send c m s) = disk s"
  "resolve (send c m s) = resolve s"
  "uploads_dir (send c m s) = uploads_dir s"
  "cwd (send c m s) = cwd s"
  by (simp_all add: send_def send_message_def write_drain_def upd_client_def log_error_def
        split: option.splits)

lemma handshake_blank_name:
  "d \<noteq> [] \<Longrightarrow> \<forall>ch\<in>set d. isspace ch \<Longrightarrow>
   handshake c (Line d # evs) s =
     (None, send c [(''type'', ''request''), (''message'', ''Enter your username:'')] s)"
  by (simp add: handshake_def receive_message_blank falsy_def)

lemma handshake_eof_name:
  "handshake c [] s =
     (None, send c [(''type'', ''request''), (''message'', ''Enter your username:'')] s)"
  by (simp add: handshake_def receive_message_eof falsy_def)

lemma handshake_blank_room:
  "strip n \<noteq> [] \<Longrightarrow> d \<noteq> [] \<Longrightarrow> \<forall>ch\<in>set d. isspace ch \<Longrightarrow>
   handshake c (Line n # Line d # evs) s =
     (None, send c [(''type'', ''request''), (''message'', ''Enter room name:'')]
              (upd_client c (\<lambda>cl. cl\<lparr>username := Some (strip n)\<rparr>)
                 (send c [(''type'', ''request''), (''message'', ''Enter your username:'')] s)))"
  by (simp add: handshake_def receive_message_blank receive_message_line falsy_def Let_def)

lemma handshake_eof_room:
  "strip n \<noteq> [] \<Longrightarrow>
   handshake c [Line n] s =
     (None, send c [(''type'', ''request''), (''message'', ''Enter room name:'')]
              (upd_client c (\<lambda>cl. cl\<lparr>username := Some (strip n)\<rparr>)
                 (send c [(''type'', ''request''), (''message'', ''Enter your username:'')] s)))"
  by (simp add: handshake_def receive_message_eof receive_message_line falsy_def Let_def)

lemma disconnect_no_room:
  "current_room (client_at s c) = None \<Longrightarrow>
   disconnect_client c s = (None, close_writer c (s\<lparr>clients := clients s - {c}\<rparr>))"
  by (simp add: disconnect_client_def)

lemma upd_client_fields [simp]:
  "rooms (upd_client c f s) = rooms s"
  "clients (upd_client c f s) = clients s"
  "room_at (upd_client c f s) = room_at s"
  "client_at (upd_client c f s) c' = (if c' = c then f (client_at s c) else client_at s c')"
  by (simp_all add: upd_client_def)

lemma demo_server_fields [simp]:
  "next_client demo_server = 0"
  "next_room demo_server = 0"
  "rooms demo_server = Map.empty"
  "clients demo_server = {}"
  "room_at demo_server = (\<lambda>_. ChatRoom_init [])"
  "client_at demo_server = (\<lambda>_. ClientConnection_init new_writer)"
  "ticks demo_server = 0"
  "time_source demo_server = (\<lambda>_. ''2024-01-01 12:00:00'')"
  "uploads_dir demo_server = [''srv'', ''uploaded_files'']"
  "cwd demo_server = [''srv'']"
  "resolve demo_server = demo_resolve"
  by (simp_all add: demo_server_def AsyncChatServer_init_def)

lemma blank_newline: "\<forall>ch\<in>set ''\<newline>''. isspace ch"
  by (simp add: isspace_def)

lemma strip_Alice: "strip ''Alice\<newline>'' = ''Alice''"
  by (simp add: strip_def isspace_def)

lemma receive_from_client_eof: "receive_from_client c [] s = (None, s)"
  by (subst receive_from_client.simps) (simp add: receive_message_eof falsy_def)

lemma receive_from_client_blank:
  "d \<noteq> [] \<Longrightarrow> \<forall>ch\<in>set d. isspace ch \<Longrightarrow> receive_from_client c (Line d # evs) s = (None, s)"
  by (subst receive_from_client.simps) (simp add: receive_message_blank falsy_def)

lemma receive_from_client_text:
  "strip l \<noteq> [] \<Longrightarrow> \<not> startswith_slash (strip l) \<Longrightarrow> current_room (client_at s c) = Some r \<Longrightarrow>
   receive_from_client c (Line l # evs) s = receive_from_client c evs (post_message r c (strip l) s)"
  by (subst receive_from_client.simps) (simp add: receive_message_line falsy_def)

lemma receive_from_client_command:
  "strip l \<noteq> [] \<Longrightarrow> startswith_slash (strip l) \<Longrightarrow>
   handle_command c (strip l) evs s = (None, s2, evs2) \<Longrightarrow>
   receive_from_client c (Line l # evs) s = receive_from_client c evs2 s2"
  by (subst receive_from_client.simps) (simp add: receive_message_line falsy_def)

lemma receive_from_client_raise:
  "strip l \<noteq> [] \<Longrightarrow> startswith_slash (strip l) \<Longrightarrow>
   handle_command c (strip l) evs s = (Some e, s2, evs2) \<Longrightarrow>
   receive_from_client c (Line l # evs) s = (Some e, s2)"
  by (subst receive_from_client.simps) (simp add: receive_message_line falsy_def)

lemma handshake_rest:
  "strip n \<noteq> [] \<Longrightarrow> strip rn \<noteq> [] \<Longrightarrow>
   handshake c (Line n # Line rn # evs) s = (Some evs, snd (handshake c [Line n, Line rn] s))"
  by (simp add: handshake_def receive_message_line falsy_def Let_def split: prod.splits)

lemma handle_command_file_prompt:
  assumes "split1 m = [p]" and "lower p = ''/file''"
  shows "handle_command c m evs s =
     (let s1 = send c [(''type'', ''system''), (''content'', ''Send file path to upload'')] s;
          (file_path, rest, s2) = receive_message evs s1
      in if falsy file_path then (None, s2, rest)
         else (None, upload_file c (the file_path) s2, rest))"
  using assms by (simp add: handle_command_def)

lemma strip_lobby: "strip ''lobby\<newline>'' = ''lobby''"
  by (simp add: strip_def isspace_def)

lemma strip_file: "strip ''/file\<newline>'' = ''/file''"
  by (simp add: strip_def isspace_def)

lemma strip_hello: "strip ''hello\<newline>'' = ''hello''"
  by (simp add: strip_def isspace_def)

lemma split1_file: "split1 ''/file'' = [''/file'']"
  by (simp add: split1_def isspace_def)

lemma lower_file: "lower ''/file'' = ''/file''"
  by (simp add: lower_def lower_char_def)

text \<open>
  C3. There is no fallback name and no default room. When the client answers the
  request for the display name with a line of whitespace only, or gives a name and
  answers the request for the room name with such a line, \<^verbatim>\<open>handle_client\<close> returns
  early and runs the teardown: no exception, the registry and every room are as before
  (no room is created or joined), the connection has no current room, it is no longer
  among the server's clients, and its channel is closed. In the first case it has no
  username either.
\<close>

theorem handshake_blank_line_aborts:
  assumes "d \<noteq> []" and "\<forall>ch\<in>set d. isspace ch"
  shows "(let c = next_client s; s' = snd (handle_client w (Line d # evs) s)
          in fst (handle_client w (Line d # evs) s) = None
           \<and> rooms s' = rooms s \<and> room_at s' = room_at s
           \<and> username (client_at s' c) = None \<and> current_room (client_at s' c) = None
           \<and> c \<notin> clients s' \<and> closed (writer (client_at s' c)))
       \<and> (strip n \<noteq> [] \<longrightarrow>
           (let c = next_client s; s' = snd (handle_client w (Line n # Line d # evs) s)
            in fst (handle_client w (Line n # Line d # evs) s) = None
             \<and> rooms s' = rooms s \<and> room_at s' = room_at s
             \<and> username (client_at s' c) = Some (strip n) \<and> current_room (client_at s' c) = None
             \<and> c \<notin> clients s' \<and> closed (writer (client_at s' c))))"
proof -
  let ?c = "next_client s"
  let ?s0 = "s\<lparr>client_at := (client_at s)(next_client s := ClientConnection_init w),
               clients := insert (next_client s) (clients s),
               next_client := Suc (next_client s)\<rparr>"
  have acc: "accept_client w s = (?c, ?s0)"
    by (simp add: accept_client_def)
  have cr: "current_room (client_at ?s0 ?c) = None"
    by (simp add: ClientConnection_init_def)
  have hc1: "handle_client w (Line d # evs) s =
      (None, close_writer ?c
         ((send ?c [(''type'', ''request''), (''message'', ''Enter your username:'')] ?s0)
            \<lparr>clients := clients s - {?c}\<rparr>))"
    using assms cr
    by (simp add: handle_client_def acc handshake_blank_name disconnect_no_room)
  have one: "let c = next_client s; s' = snd (handle_client w (Line d # evs) s)
          in fst (handle_client w (Line d # evs) s) = None
           \<and> rooms s' = rooms s \<and> room_at s' = room_at s
           \<and> username (client_at s' c) = None \<and> current_room (client_at s' c) = None
           \<and> c \<notin> clients s' \<and> closed (writer (client_at s' c))"
    unfolding hc1 Let_def
    by (simp add: close_writer_def ClientConnection_init_def)
  have hc2: "handle_client w (Line n # Line d # evs) s =
      (None, close_writer ?c
         ((send ?c [(''type'', ''request''), (''message'', ''Enter room name:'')]
              (upd_client ?c (\<lambda>cl. cl\<lparr>username := Some (strip n)\<rparr>)
                 (send ?c [(''type'', ''request''), (''message'', ''Enter your username:'')] ?s0)))
            \<lparr>clients := clients s - {?c}\<rparr>))"
    if "strip n \<noteq> []"
    using assms that cr
    by (simp add: handle_client_def acc handshake_blank_room disconnect_no_room)
  have two: "let c = next_client s; s' = snd (handle_client w (Line n # Line d # evs) s)
            in fst (handle_client w (Line n # Line d # evs) s) = None
             \<and> rooms s' = rooms s \<and> room_at s' = room_at s
             \<and> username (client_at s' c) = Some (strip n) \<and> current_room (client_at s' c) = None
             \<and> c \<notin> clients s' \<and> closed (writer (client_at s' c))"
    if "strip n \<noteq> []"
    unfolding hc2 [OF that] Let_def
    by (simp add: close_writer_def ClientConnection_init_def)
  from one two show ?thesis by blast
qed


theorem handshake_blank_line_aborts_witness:
  "''\<newline>'' \<noteq> [] \<and> list_all isspace ''\<newline>'' \<and> strip ''Alice\<newline>'' \<noteq> []
   \<and> rooms (snd (handle_client new_writer [Line ''\<newline>'', Line ''lobby\<newline>''] demo_server)) = Map.empty
   \<and> current_room (client_at (snd (handle_client new_writer [Line ''\<newline>'', Line ''lobby\<newline>''] demo_server)) 0) = None
   \<and> rooms (snd (handle_client new_writer [Line ''Alice\<newline>'', Line ''\<newline>''] demo_server)) = Map.empty
   \<and> username (client_at (snd (handle_client new_writer [Line ''Alice\<newline>'', Line ''\<newline>''] demo_server)) 0) = Some ''Alice''
   \<and> current_room (client_at (snd (handle_client new_writer [Line ''Alice\<newline>'', Line ''\<newline>''] demo_server)) 0) = None"
proof -
  have h: "''\<newline>'' \<noteq> []" by simp
  from handshake_blank_line_aborts [OF h blank_newline, of demo_server new_writer "[Line ''lobby\<newline>'']" "''Alice\<newline>''"]
    handshake_blank_line_aborts [OF h blank_newline, of demo_server new_writer "[]" "''Alice\<newline>''"]
    blank_newline
  show ?thesis
    by (simp add: Let_def strip_Alice)
qed

text \<open>
  With a blank name the handshake does not complete, no name is made up and no room is
  joined (although a room name would follow); with a blank room name no default room is
  joined or created.
\<close>

theorem handshake_fallback_counterexample:
  "fst (handshake 0 [Line ''\<newline>'', Line ''lobby\<newline>''] (snd (accept_client new_writer demo_server))) = None
   \<and> username (client_at (snd (handshake 0 [Line ''\<newline>'', Line ''lobby\<newline>'']
        (snd (accept_client new_writer demo_server)))) 0) = None
   \<and> current_room (client_at (snd (handshake 0 [Line ''\<newline>'', Line ''lobby\<newline>'']
        (snd (accept_client new_writer demo_server)))) 0) = None
   \<and> rooms (snd (handshake 0 [Line ''\<newline>'', Line ''lobby\<newline>'']
        (snd (accept_client new_writer demo_server)))) = Map.empty
   \<and> fst (handshake 0 [Line ''Alice\<newline>'', Line ''\<newline>''] (snd (accept_client new_writer demo_server))) = None
   \<and> current_room (client_at (snd (handshake 0 [Line ''Alice\<newline>'', Line ''\<newline>'']
        (snd (accept_client new_writer demo_server)))) 0) = None
   \<and> rooms (snd (handshake 0 [Line ''Alice\<newline>'', Line ''\<newline>'']
        (snd (accept_client new_writer demo_server)))) = Map.empty"
  using blank_newline
  by (simp add: handshake_blank_name handshake_blank_room strip_Alice accept_client_def
        ClientConnection_init_def)

subsection \<open>Blank lines\<close>

lemma accept_client_eq:
  "accept_client w s =
     (next_client s,
      s\<lparr>client_at := (client_at s)(next_client s := ClientConnection_init w),
        clients := insert (next_client s) (clients s),
        next_client := Suc (next_client s)\<rparr>)"
  by (simp add: accept_client_def)

lemma add_member_fields:
  "clients (add_member r c s) = clients s"
  "client_at (add_member r c s) = client_at s"
  "name (room_at (add_member r c s) r') = name (room_at s r')"
  by (simp_all add: add_member_def upd_room_def tick_def)

text \<open>
  After a handshake with a name and a room name, the connection's current room is the
  room that \<^verbatim>\<open>get_or_create_room\<close> returns for the name, and this room is registered
  under its own name (for a room that existed: when it was registered under its name
  before).
\<close>

lemma handshake_joined:
  assumes n: "strip n \<noteq> []" and rn: "strip rn \<noteq> []"
    and reg: "case rooms s (strip rn) of None \<Rightarrow> True | Some r \<Rightarrow> name (room_at s r) = strip rn"
  shows "current_room (client_at (snd (handshake c [Line n, Line rn] s)) c)
           = Some (fst (get_or_create_room (strip rn) s))"
    and "rooms (snd (handshake c [Line n, Line rn] s))
           (name (room_at (snd (handshake c [Line n, Line rn] s)) (fst (get_or_create_room (strip rn) s))))
           = Some (fst (get_or_create_room (strip rn) s))"
proof -
  let ?s5 = "send c [(''type'', ''request''), (''message'', ''Enter room name:'')]
              (upd_client c (\<lambda>cl. cl\<lparr>username := Some (strip n)\<rparr>)
                 (send c [(''type'', ''request''), (''message'', ''Enter your username:'')] s))"
  let ?r = "fst (get_or_create_room (strip rn) s)"
  let ?s6 = "snd (get_or_create_room (strip rn) ?s5)"
  have r5: "fst (get_or_create_room (strip rn) ?s5) = ?r"
    by (simp add: get_or_create_room_def upd_client_def split: option.splits)
  have h: "snd (handshake c [Line n, Line rn] s) =
      send c [(''type'', ''success''),
              (''message'', ''Welcome to room '' @ [CHR 0x27] @ strip rn @ [CHR 0x27]
                 @ ''! (Type /help for commands)'')]
        (add_member ?r c (upd_client c (\<lambda>cl. cl\<lparr>current_room := Some ?r\<rparr>) ?s6))"
    using n rn r5
    by (auto simp: handshake_def receive_message_line falsy_def Let_def split: prod.splits)
  have g: "rooms ?s6 (name (room_at ?s6 ?r)) = Some ?r"
    using reg by (simp add: get_or_create_room_def ChatRoom_init_def upd_client_def split: option.splits)
  show "current_room (client_at (snd (handshake c [Line n, Line rn] s)) c) = Some ?r"
    by (simp add: h add_member_fields)
  show "rooms (snd (handshake c [Line n, Line rn] s))
           (name (room_at (snd (handshake c [Line n, Line rn] s)) ?r)) = Some ?r"
    using g by (simp add: h add_member_fields)
qed

text \<open>
  Lines that are neither blank nor commands are posted to the connection's room, one
  after the other; this changes no registry entry, no room name and no current room.
\<close>

lemma post_message_fields:
  "rooms (post_message r c m s) = rooms s"
  "client_at (post_message r c m s) = client_at s"
  "name (room_at (post_message r c m s) r') = name (room_at s r')"
  by (simp_all add: post_message_def upd_room_def tick_def)

lemma posts_fields:
  "rooms (fold (\<lambda>l. post_message r c (strip l)) ls s) = rooms s"
  "client_at (fold (\<lambda>l. post_message r c (strip l)) ls s) = client_at s"
  "name (room_at (fold (\<lambda>l. post_message r c (strip l)) ls s) r') = name (room_at s r')"
  by (induction ls arbitrary: s) (simp_all add: post_message_fields)

lemma receive_from_client_posts:
  assumes "list_all (\<lambda>l. strip l \<noteq> [] \<and> \<not> startswith_slash (strip l)) ls"
    and "current_room (client_at s c) = Some r"
  shows "receive_from_client c (map Line ls @ evs) s =
           receive_from_client c evs (fold (\<lambda>l. post_message r c (strip l)) ls s)"
  using assms
proof (induction ls arbitrary: s)
  case Nil
  then show ?case by simp
next
  case (Cons l ls)
  from Cons.prems have l: "strip l \<noteq> []" "\<not> startswith_slash (strip l)"
    and ls: "list_all (\<lambda>l. strip l \<noteq> [] \<and> \<not> startswith_slash (strip l)) ls"
    by simp_all
  have cr: "current_room (client_at (post_message r c (strip l) s) c) = Some r"
    using Cons.prems(2) by (simp add: post_message_fields)
  have "receive_from_client c (Line l # map Line ls @ evs) s =
          receive_from_client c (map Line ls @ evs) (post_message r c (strip l) s)"
    using l Cons.prems(2) by (rule receive_from_client_text)
  with Cons.IH [OF ls cr] show ?case by simp
qed

text \<open>The teardown of a connection whose room is registered under its name.\<close>

lemma disconnect_registered:
  assumes cr: "current_room (client_at s c) = Some r"
    and reg: "rooms s (name (room_at s r)) = Some r"
  shows "fst (disconnect_client c s) = None"
    and "c \<notin> clients (snd (disconnect_client c s))"
    and "c \<notin> set (members (room_at (snd (disconnect_client c s)) r))"
    and "closed (writer (client_at (snd (disconnect_client c s)) c))"
    and "current_room (client_at (snd (disconnect_client c s)) c) = Some r"
proof -
  from reg have d: "name (room_at s r) \<in> dom (rooms s)" by (rule domI)
  show "fst (disconnect_client c s) = None"
    using cr d by (simp add: disconnect_client_raises)
  show "c \<notin> clients (snd (disconnect_client c s))"
    by (simp add: disconnect_client_effect)
  show "c \<notin> set (members (room_at (snd (disconnect_client c s)) r))"
    using cr by (simp add: disconnect_client_effect set_discard_not_member)
  show "closed (writer (client_at (snd (disconnect_client c s)) c))"
    using cr d by (simp add: disconnect_client_def Let_def close_writer_def upd_client_def)
  show "current_room (client_at (snd (disconnect_client c s)) c) = Some r"
    using cr by (simp add: disconnect_client_effect)
qed

lemma disconnect_unjoined:
  assumes "current_room (client_at s c) = None"
  shows "fst (disconnect_client c s) = None"
    and "c \<notin> clients (snd (disconnect_client c s))"
    and "closed (writer (client_at (snd (disconnect_client c s)) c))"
    and "current_room (client_at (snd (disconnect_client c s)) c) = None"
  using assms by (simp_all add: disconnect_no_room close_writer_def upd_client_def)






subsection \<open>Sending\<close>

lemma received_send:
  "received (send c m s) c' =
     (if c' = c \<and> broken (writer (client_at s c)) = None then received s c @ [m] else received s c')"
  by (simp add: received_def send_def send_message_def write_drain_def upd_client_def log_error_def
        split: option.splits)

lemma bob_broken_writer [simp]:
  "broken (writer (client_at bob_broken (Suc 0))) = Some ''Connection lost''"
  "broken (writer (client_at bob_broken 0)) = None"
  "client_at bob_broken 0 = client_at alice_and_bob 0"
  by (simp_all add: bob_broken_def new_writer_def)

text \<open>
  C6. \<^verbatim>\<open>send_message\<close> never reports a fault to its caller: it always returns normally
  and returns nothing. When writing fails, the exception is caught inside, its text is
  appended to the error log, and nothing else changes; when writing succeeds, the message
  is appended to what this client has been sent. Either way no other connection, no
  room and no registry entry is touched, so a failing client does not disturb the
  others.
\<close>

theorem send_message_swallows_faults:
  "fst (send_message c m s) = None
   \<and> (\<forall>e. broken (writer (client_at s c)) = Some e \<longrightarrow>
         write_drain (writer (client_at s c)) m = Inl e
       \<and> snd (send_message c m s) = s\<lparr>error_log := error_log s @ [e]\<rparr>)
   \<and> (broken (writer (client_at s c)) = None \<longrightarrow>
         received (snd (send_message c m s)) c = received s c @ [m]
       \<and> error_log (snd (send_message c m s)) = error_log s)
   \<and> (\<forall>c'. c' \<noteq> c \<longrightarrow> client_at (snd (send_message c m s)) c' = client_at s c')
   \<and> clients (snd (send_message c m s)) = clients s
   \<and> rooms (snd (send_message c m s)) = rooms s
   \<and> room_at (snd (send_message c m s)) = room_at s"
  by (auto simp: send_message_def write_drain_def upd_client_def log_error_def received_def
        split: option.splits)

theorem send_message_swallows_faults_witness:
  "broken (writer (client_at bob_broken 1)) = Some ''Connection lost''
   \<and> fst (send_message 1 help_text bob_broken) = None
   \<and> snd (send_message 1 help_text bob_broken) = bob_broken\<lparr>error_log := error_log bob_broken @ [''Connection lost'']\<rparr>
   \<and> broken (writer (client_at bob_broken 0)) = None
   \<and> received (snd (send_message 0 help_text bob_broken)) 0 = received bob_broken 0 @ [help_text]
   \<and> client_at (snd (send_message 1 help_text bob_broken)) 0 = client_at bob_broken 0"
  using send_message_swallows_faults [of 1 help_text bob_broken]
    send_message_swallows_faults [of 0 help_text bob_broken]
  by (simp add: new_writer_def)

text \<open>
  Writing to Bob fails, and the caller of \<^verbatim>\<open>send_message\<close> sees what it sees when
  writing to Alice succeeds: a normal return.
\<close>

theorem send_fault_reported_counterexample:
  "write_drain (writer (client_at bob_broken 1)) help_text = Inl ''Connection lost''
   \<and> fst (send_message 1 help_text bob_broken) = None
   \<and> fst (send_message 0 help_text bob_broken) = None"
  by (simp add: send_message_def write_drain_def new_writer_def)


subsection \<open>Message fields\<close>

lemma received_unchanged [simp]:
  "received (upd_room r f s) c = received s c"
  "received (tick s) c = received s c"
  "received (log_error e s) c = received s c"
  "received (write_file p b s) c = received s c"
  by (simp_all add: received_def upd_room_def tick_def log_error_def write_file_def)

lemma received_send_private [simp]:
  "received (snd (send_private_message r f t txt s)) c = received s c"
  by (simp add: received_def send_private_message_def upd_client_def tick_def split: option.splits)

lemma received_receive [simp]:
  "receive_message evs s = (x, rest, s') \<Longrightarrow> received s' c = received s c"
  by (auto simp: receive_message_def split: list.splits read_event.splits if_splits)

lemma received_open_wb: "open_wb p s = Inr s' \<Longrightarrow> received s' c = received s c"
  by (auto simp: open_wb_def split: option.splits node.splits if_splits)

lemma wrote_refl: "received s' c = received s c \<Longrightarrow> wrote P c s s'"
  by (simp add: wrote_def)

lemma wrote_send: "P m \<Longrightarrow> wrote P c s s' \<Longrightarrow> wrote P c s (send c m s')"
  by (auto simp: wrote_def received_send)

lemma wrote_untimed_send:
  "wrote untimed c s s' \<Longrightarrow> wrote untimed c s (send c [(''type'', t), (''content'', x)] s')"
  by (rule wrote_send) (simp_all add: untimed_def has_key_def)

lemma wrote_trans: "wrote P c s s' \<Longrightarrow> wrote P c s' s'' \<Longrightarrow> wrote P c s s''"
  by (auto simp: wrote_def)

lemma wrote_step: "wrote P c s s' \<Longrightarrow> received s'' c = received s' c \<Longrightarrow> wrote P c s s''"
  by (auto simp: wrote_def)

lemma untimed_reply [simp]: "untimed [(''type'', t), (''content'', x)]"
  by (simp add: untimed_def has_key_def)

lemma wrote_upload_error: "wrote untimed c s (upload_error c e s)"
  by (simp add: upload_error_def wrote_untimed_send wrote_refl)

lemma wrote_upload_file: "wrote untimed c s (upload_file c p s)"
proof -
  let ?f = "absolute s (strip p)"
  let ?d = "joinpath (uploads_dir s) (path_name ?f)"
  consider (a) "\<not> exists_path s ?f" | (b) "exists_path s ?f" "\<not> is_file s ?f"
    | (r) e where "exists_path s ?f" "is_file s ?f" "open_rb ?f s = Some e"
    | (c) e where "exists_path s ?f" "is_file s ?f" "open_rb ?f s = None" "open_wb ?d s = Inl e"
    | (d) s1 where "exists_path s ?f" "is_file s ?f" "open_rb ?f s = None" "open_wb ?d s = Inr s1"
    by (cases "open_rb ?f s"; cases "open_wb ?d s") auto
  then show ?thesis
  proof cases
    case a
    then show ?thesis
      by (simp add: upload_file_def wrote_untimed_send wrote_refl)
  next
    case b
    then show ?thesis
      by (simp add: upload_file_def wrote_untimed_send wrote_refl)
  next
    case r
    then show ?thesis
      by (simp add: upload_file_def Let_def wrote_upload_error)
  next
    case c
    then show ?thesis
      by (simp add: upload_file_def Let_def wrote_upload_error)
  next
    case d
    from d(4) have r: "received s1 c = received s c" by (rule received_open_wb)
    have "wrote untimed c s (write_file ?d (read_file s1 ?f) s1)"
      by (rule wrote_refl) (simp add: r)
    then have "wrote untimed c s
        (send c [(''type'', ''system''),
                 (''content'', ''File '' @ path_name ?f @ '' uploaded successfully (''
                     @ str_of_nat (length (read_file s1 ?f)) @ '' bytes)'')]
           (write_file ?d (read_file s1 ?f) s1))"
      by (rule wrote_untimed_send)
    with d show ?thesis
      by (auto simp: upload_file_def Let_def split: option.splits intro: wrote_step)
  qed
qed

lemma wrote_handle_command:
  "wrote untimed c s (fst (snd (handle_command c cmd evs s)))"
proof (cases "split1 cmd")
  case Nil
  then show ?thesis by (simp add: handle_command_def wrote_refl)
next
  case (Cons p ps)
  consider (c_help) "lower p = ''/help''" | (c_list) "lower p = ''/list''"
    | (c_private) "lower p = ''/private''" | (c_file) "lower p = ''/file''"
    | (c_other) "lower p \<notin> {''/help'', ''/list'', ''/private'', ''/file''}"
    by auto
  then show ?thesis
  proof cases
    case c_help
    with Cons show ?thesis
      by (simp add: handle_command_def help_text_def wrote_untimed_send wrote_refl)
  next
    case c_list
    with Cons show ?thesis
      by (simp add: handle_command_def wrote_send wrote_refl split: option.splits)
  next
    case c_private
    show ?thesis
    proof (cases "length (p # ps) > 1 \<and> length (split1 ((p # ps) ! 1)) \<ge> 2
                  \<and> current_room (client_at s c) \<noteq> None")
      case False
      with Cons c_private show ?thesis
        by (auto simp: handle_command_def Let_def wrote_refl split: option.splits)
    next
      case True
      then obtain r where r: "current_room (client_at s c) = Some r" by auto
      let ?to = "lstrip_at (split1 ((p # ps) ! 1) ! 0)"
      let ?txt = "split1 ((p # ps) ! 1) ! 1"
      obtain ok s1 where sp: "send_private_message r c ?to ?txt s = (ok, s1)"
        by (cases "send_private_message r c ?to ?txt s") auto
      have "received (snd (send_private_message r c ?to ?txt s)) c = received s c"
        by (rule received_send_private)
      with sp have "wrote untimed c s s1" by (simp add: wrote_refl)
      then have "wrote untimed c s (send c [(''type'', ''system''), (''content'', ''Private message sent to '' @ ?to)] s1)"
        and "wrote untimed c s (send c [(''type'', ''error''), (''content'', ''User '' @ ?to @ '' not found'')] s1)"
        by (rule wrote_untimed_send)+
      with Cons c_private True r sp show ?thesis
        by (simp add: handle_command_def Let_def)
    qed
  next
    case c_file
    show ?thesis
    proof (cases "length (p # ps) > 1")
      case True
      with Cons c_file show ?thesis
        by (simp add: handle_command_def wrote_upload_file)
    next
      case False
      obtain x rest s2 where rm: "receive_message evs
          (send c [(''type'', ''system''), (''content'', ''Send file path to upload'')] s) = (x, rest, s2)"
        by (metis prod_cases3)
      have w1: "wrote untimed c s s2"
        by (rule wrote_step [OF wrote_untimed_send [OF wrote_refl [OF refl]]])
           (rule received_receive [OF rm])
      have w2: "wrote untimed c s (upload_file c (the x) s2)"
        by (rule wrote_trans [OF w1 wrote_upload_file])
      from Cons c_file False rm w1 w2 show ?thesis
        by (simp add: handle_command_def Let_def)
    qed
  next
    case c_other
    with Cons show ?thesis
      by (simp add: handle_command_def wrote_refl)
  qed
qed


lemma wrote_bare_send:
  "wrote bare c s s' \<Longrightarrow> wrote bare c s (send c [(''type'', t), (''message'', x)] s')"
  by (rule wrote_send) (simp_all add: bare_def has_key_def)

lemma received_unchanged2 [simp]:
  "received (add_member r c' s) c = received s c"
  "received (snd (get_or_create_room n s)) c = received s c"
  "writer (f (client_at s c')) = writer (client_at s c') \<Longrightarrow> received (upd_client c' f s) c = received s c"
  by (simp_all add: received_def add_member_def upd_room_def tick_def get_or_create_room_def
        upd_client_def split: option.splits)

lemma wrote_handshake: "wrote bare c s (snd (handshake c evs s))"
proof -
  let ?s1 = "send c [(''type'', ''request''), (''message'', ''Enter your username:'')] s"
  obtain u evs1 s2 where r1: "receive_message evs ?s1 = (u, evs1, s2)"
    by (metis prod_cases3)
  have w2: "wrote bare c s s2"
    by (rule wrote_step [OF wrote_bare_send [OF wrote_refl [OF refl]]]) (rule received_receive [OF r1])
  let ?s3 = "upd_client c (\<lambda>cl. cl\<lparr>username := u\<rparr>) s2"
  let ?s4 = "send c [(''type'', ''request''), (''message'', ''Enter room name:'')] ?s3"
  obtain rn evs2 s5 where r2: "receive_message evs1 ?s4 = (rn, evs2, s5)"
    by (metis prod_cases3)
  have w3: "wrote bare c s ?s3"
    by (rule wrote_step [OF w2]) simp
  have w5: "wrote bare c s s5"
    by (rule wrote_step [OF wrote_bare_send [OF w3]]) (rule received_receive [OF r2])
  obtain room s6 where g: "get_or_create_room (the rn) s5 = (room, s6)"
    by (cases "get_or_create_room (the rn) s5") auto
  have "received (snd (get_or_create_room (the rn) s5)) c = received s5 c" by simp
  with g have r6: "received s6 c = received s5 c" by simp
  let ?s8 = "add_member room c (upd_client c (\<lambda>cl. cl\<lparr>current_room := Some room\<rparr>) s6)"
  have w8: "wrote bare c s ?s8"
    by (rule wrote_step [OF w5]) (simp add: r6)
  have w9: "wrote bare c s (send c [(''type'', ''success''),
                 (''message'', ''Welcome to room '' @ [CHR 0x27] @ the rn @ [CHR 0x27]
                    @ ''! (Type /help for commands)'')] ?s8)"
    by (rule wrote_bare_send [OF w8])
  from r1 r2 g w2 w5 w9 show ?thesis
    by (simp add: handshake_def Let_def)
qed

lemma queue_after [simp]:
  "message_queue (room_at (add_member r c s) r) =
     message_queue (room_at s r) @
       [[(''type'', ''system'' ),
         (''content'', str_of_username (username (client_at s c)) @ '' joined the room''),
         (''time'', now s)]]"
  "message_queue (room_at (remove_member r c s) r) =
     message_queue (room_at s r) @
       [[(''type'', ''system'' ),
         (''content'', str_of_username (username (client_at s c)) @ '' left the room''),
         (''time'', now s)]]"
  "message_queue (room_at (post_message r c txt s) r) =
     message_queue (room_at s r) @
       [[(''type'', ''message''),
         (''sender'', str_of_username (username (client_at s c))),
         (''content'', txt),
         (''time'', now s)]]"
  by (simp_all add: add_member_def remove_member_def post_message_def upd_room_def tick_def
        queue_put_def now_def)

lemma send_private_message_target:
  assumes "fst (send_private_message r c to_username txt s)"
  shows "\<exists>t\<in>set (members (room_at s r)).
           username (client_at s t) = Some to_username
         \<and> private_queue (client_at (snd (send_private_message r c to_username txt s)) t) =
             private_queue (client_at s t) @
               [[(''type'', ''private''),
                 (''from'', str_of_username (username (client_at s c))),
                 (''content'', txt),
                 (''time'', now s)]]
         \<and> (\<forall>c'. c' \<noteq> t \<longrightarrow>
               private_queue (client_at (snd (send_private_message r c to_username txt s)) c') =
               private_queue (client_at s c'))
         \<and> room_at (snd (send_private_message r c to_username txt s)) = room_at s"
proof (cases "find_member s to_username (members (room_at s r))")
  case None
  with assms show ?thesis by (simp add: send_private_message_def)
next
  case (Some t)
  then have "t \<in> set (members (room_at s r))" "username (client_at s t) = Some to_username"
    using find_member_Some by blast+
  with Some show ?thesis
    by (intro bexI [where x = t])
       (simp_all add: send_private_message_def private_message_def queue_put_def tick_def upd_client_def)
qed

lemma split1_help: "split1 ''/help'' = [''/help'']"
  by (simp add: split1_def isspace_def)

lemma lower_help: "lower ''/help'' = ''/help''"
  by (simp add: lower_def lower_char_def)

lemma handle_command_help_example:
  "handle_command 0 ''/help'' [] alice_and_bob = (None, send 0 help_text alice_and_bob, [])"
  by (simp add: handle_command_def split1_help lower_help)

lemma received_alice_and_bob [simp]:
  "received alice_and_bob 0 = []" "received alice_and_bob (Suc 0) = []"
  by (simp_all add: received_def new_writer_def)

lemma broken_new_writer [simp]: "broken new_writer = None"
  by (simp add: new_writer_def)

text \<open>
  C8. The notices that \<^verbatim>\<open>add_member\<close> and \<^verbatim>\<open>remove_member\<close> put on the room queue
  carry a content and a timestamp; the message of \<^verbatim>\<open>post_message\<close> carries the sender's
  name, the content and a timestamp; a private message carries the sender's name
  (\<^verbatim>\<open>from\<close>), the content and a timestamp, and goes on the private queue of one member
  with the addressed name, on no other private queue and on no room queue. Every message
  that the command interpreter writes to the client itself (help, list, confirmations,
  errors, upload replies) has a content and no timestamp, and every message that the
  handshake writes (the two requests, the welcome) has a \<^verbatim>\<open>message\<close> field, no
  content and no timestamp.
\<close>

theorem message_fields:
  "message_queue (room_at (add_member r c s) r) =
     message_queue (room_at s r) @
       [[(''type'', ''system'' ),
         (''content'', str_of_username (username (client_at s c)) @ '' joined the room''),
         (''time'', now s)]]
   \<and> message_queue (room_at (remove_member r c s) r) =
     message_queue (room_at s r) @
       [[(''type'', ''system'' ),
         (''content'', str_of_username (username (client_at s c)) @ '' left the room''),
         (''time'', now s)]]
   \<and> message_queue (room_at (post_message r c txt s) r) =
     message_queue (room_at s r) @
       [[(''type'', ''message''),
         (''sender'', str_of_username (username (client_at s c))),
         (''content'', txt),
         (''time'', now s)]]
   \<and> (fst (send_private_message r c to_username txt s) \<longrightarrow>
        (\<exists>t\<in>set (members (room_at s r)).
           username (client_at s t) = Some to_username
         \<and> private_queue (client_at (snd (send_private_message r c to_username txt s)) t) =
             private_queue (client_at s t) @
               [[(''type'', ''private''),
                 (''from'', str_of_username (username (client_at s c))),
                 (''content'', txt),
                 (''time'', now s)]]
         \<and> (\<forall>c'. c' \<noteq> t \<longrightarrow>
               private_queue (client_at (snd (send_private_message r c to_username txt s)) c') =
               private_queue (client_at s c'))
         \<and> room_at (snd (send_private_message r c to_username txt s)) = room_at s))
   \<and> wrote untimed c s (fst (snd (handle_command c cmd evs s)))
   \<and> wrote bare c s (snd (handshake c evs s))"
  using send_private_message_target [of r c to_username "txt" s]
  by (simp only: queue_after wrote_handle_command wrote_handshake simp_thms) blast


theorem message_fields_witness:
  "fst (send_private_message 0 0 ''Bob'' ''hi'' alice_and_bob)
   \<and> private_queue (client_at (snd (send_private_message 0 0 ''Bob'' ''hi'' alice_and_bob)) 1) =
       [[(''type'', ''private''), (''from'', ''Alice''), (''content'', ''hi''),
         (''time'', ''2024-01-01 12:00:00'')]]
   \<and> private_queue (client_at (snd (send_private_message 0 0 ''Bob'' ''hi'' alice_and_bob)) 0) = []
   \<and> message_queue (room_at (post_message 0 0 ''hello'' alice_and_bob) 0) =
       [[(''type'', ''message''), (''sender'', ''Alice''), (''content'', ''hello''),
         (''time'', ''2024-01-01 12:00:00'')]]
   \<and> received (fst (snd (handle_command 0 ''/help'' [] alice_and_bob))) 0 = [help_text]
   \<and> wrote untimed 0 alice_and_bob (fst (snd (handle_command 0 ''/help'' [] alice_and_bob)))"
proof -
  have h: "fst (send_private_message 0 0 ''Bob'' ''hi'' alice_and_bob)"
    by (simp add: send_private_message_def)
  have r: "received (fst (snd (handle_command 0 ''/help'' [] alice_and_bob))) 0 = [help_text]"
    by (simp add: handle_command_help_example received_send)
  from message_fields [of 0 0 alice_and_bob "''hello''" "''Bob''" "''/help''" "[]"]
  have a: "message_queue (room_at (post_message 0 0 ''hello'' alice_and_bob) 0) =
       [[(''type'', ''message''), (''sender'', ''Alice''), (''content'', ''hello''),
         (''time'', ''2024-01-01 12:00:00'')]]"
    and w: "wrote untimed 0 alice_and_bob (fst (snd (handle_command 0 ''/help'' [] alice_and_bob)))"
    by (simp_all add: str_of_username_def)
  from message_fields [of 0 0 alice_and_bob "''hi''" "''Bob''" "''/help''" "[]"] h
  have "\<exists>t\<in>{0, 1}.
           username (client_at alice_and_bob t) = Some ''Bob''
         \<and> private_queue (client_at (snd (send_private_message 0 0 ''Bob'' ''hi'' alice_and_bob)) t) =
             private_queue (client_at alice_and_bob t) @
               [[(''type'', ''private''), (''from'', ''Alice''), (''content'', ''hi''),
                 (''time'', ''2024-01-01 12:00:00'')]]
         \<and> (\<forall>c'. c' \<noteq> t \<longrightarrow>
               private_queue (client_at (snd (send_private_message 0 0 ''Bob'' ''hi'' alice_and_bob)) c') =
               private_queue (client_at alice_and_bob c'))"
    by (simp add: str_of_username_def)
  then have "private_queue (client_at (snd (send_private_message 0 0 ''Bob'' ''hi'' alice_and_bob)) 1) =
       [[(''type'', ''private''), (''from'', ''Alice''), (''content'', ''hi''),
         (''time'', ''2024-01-01 12:00:00'')]]
     \<and> private_queue (client_at (snd (send_private_message 0 0 ''Bob'' ''hi'' alice_and_bob)) 0) = []"
    by auto
  with h r a w show ?thesis by simp
qed

text \<open>
  The reply to \<^verbatim>\<open>/help\<close> has no timestamp, and the first request of the handshake has
  neither a timestamp nor a content.
\<close>

theorem message_fields_counterexample:
  "received (fst (snd (handle_command 0 ''/help'' [] alice_and_bob))) 0 = [help_text]
   \<and> \<not> has_key help_text ''time''
   \<and> received (snd (handshake 0 [] (snd (accept_client new_writer demo_server)))) 0 =
       [[(''type'', ''request''), (''message'', ''Enter your username:'')]]
   \<and> \<not> has_key [(''type'', ''request''), (''message'', ''Enter your username:'')] ''time''
   \<and> \<not> has_key [(''type'', ''request''), (''message'', ''Enter your username:'')] ''content''"
  by (simp add: handle_command_help_example received_send handshake_eof_name has_key_def
        help_text_def accept_client_def ClientConnection_init_def)
     (simp add: received_def ClientConnection_init_def new_writer_def)

subsection \<open>Command faults\<close>

lemma send_file_system [simp]:
  "exists_path (send c m s) p = exists_path s p"
  "is_file (send c m s) p = is_file s p"
  "absolute (send c m s) x = absolute s x"
  by (simp_all add: exists_path_def is_file_def absolute_def)

lemma upload_file_not_found:
  "\<not> exists_path s (absolute s (strip p)) \<Longrightarrow>
   upload_file c p s =
     send c [(''type'', ''error''), (''content'', ''File not found: '' @ str_of_path (absolute s (strip p)))] s"
  by (simp add: upload_file_def)

lemma upload_file_not_a_file:
  "exists_path s (absolute s (strip p)) \<Longrightarrow> \<not> is_file s (absolute s (strip p)) \<Longrightarrow>
   upload_file c p s =
     send c [(''type'', ''error''), (''content'', ''Path is not a file: '' @ str_of_path (absolute s (strip p)))] s"
  by (simp add: upload_file_def)

lemma split1_examples:
  "split1 ''/foo'' = [''/foo'']"
  "split1 ''/private'' = [''/private'']"
  "split1 ''/private @Bob'' = [''/private'', ''@Bob'']"
  "split1 ''@Bob'' = [''@Bob'']"
  "split1 ''/private @Carol hi'' = [''/private'', ''@Carol hi'']"
  "split1 ''@Carol hi'' = [''@Carol'', ''hi'']"
  "split1 ''/file /nope'' = [''/file'', ''/nope'']"
  "split1 ''/file /home/docs'' = [''/file'', ''/home/docs'']"
  by (simp_all add: split1_def isspace_def)

lemma lower_examples:
  "lower ''/foo'' = ''/foo''"
  "lower ''/private'' = ''/private''"
  by (simp_all add: lower_def lower_char_def)

lemma strip_examples:
  "strip ''/foo\<newline>'' = ''/foo''"
  "strip ''/nope'' = ''/nope''"
  "strip ''/home/docs'' = ''/home/docs''"
  by (simp_all add: strip_def isspace_def)

lemma alice_and_bob_fs [simp]:
  "disk alice_and_bob = demo_disk(Suc 0 \<mapsto> Dir)"
  "resolve alice_and_bob = demo_resolve"
  "uploads_dir alice_and_bob = [''srv'', ''uploaded_files'']"
  "cwd alice_and_bob = [''srv'']"
  by (simp_all add: alice_and_bob_def demo_server_def AsyncChatServer_init_def demo_resolve_def
        demo_disk_def)

lemma absolute_examples:
  "absolute alice_and_bob ''/nope'' = [''nope'']"
  "absolute alice_and_bob ''/home/docs'' = [''home'', ''docs'']"
  by (simp_all add: absolute_def Path_parts_def startswith_slash_def)

lemma path_examples:
  "\<not> exists_path alice_and_bob [''nope'']"
  "exists_path alice_and_bob [''home'', ''docs'']"
  "\<not> is_file alice_and_bob [''home'', ''docs'']"
  by (simp_all add: exists_path_def is_file_def demo_resolve_def demo_disk_def)

text \<open>
  C7. No command fault raises an exception, and after each the read loop goes on with
  the next line, so the connection is not aborted. An error message is sent to the
  originating client when the target of \<^verbatim>\<open>/private\<close> is not in the room, and when the
  path of \<^verbatim>\<open>/file\<close> (given with the command, or on the next line after the prompt)
  does not exist or is not a regular file. Nothing is sent and nothing
  changes for a command that is not recognized and for \<^verbatim>\<open>/private\<close> without a target or
  without a text.
\<close>

theorem command_faults:
  "(\<forall>p ps. split1 cmd = p # ps \<and> lower p \<notin> {''/help'', ''/list'', ''/private'', ''/file'', ''/quit''} \<longrightarrow>
      handle_command c cmd evs s = (None, s, evs))
   \<and> (\<forall>p. lower p = ''/private''
          \<and> (split1 cmd = [p] \<or> (\<exists>remainder. split1 cmd = [p, remainder] \<and> length (split1 remainder) < 2)) \<longrightarrow>
      handle_command c cmd evs s = (None, s, evs))
   \<and> (\<forall>p remainder target body r.
        split1 cmd = [p, remainder] \<and> lower p = ''/private'' \<and> split1 remainder = [target, body]
        \<and> current_room (client_at s c) = Some r
        \<and> (\<forall>m\<in>set (members (room_at s r)). username (client_at s m) \<noteq> Some (lstrip_at target)) \<longrightarrow>
      handle_command c cmd evs s =
        (None, send c [(''type'', ''error''), (''content'', ''User '' @ lstrip_at target @ '' not found'')] s, evs))
   \<and> (\<forall>p file_path.
        split1 cmd = [p, file_path] \<and> lower p = ''/file''
        \<and> \<not> exists_path s (absolute s (strip file_path)) \<longrightarrow>
      handle_command c cmd evs s =
        (None, send c [(''type'', ''error''),
                       (''content'', ''File not found: '' @ str_of_path (absolute s (strip file_path)))] s, evs))
   \<and> (\<forall>p file_path.
        split1 cmd = [p, file_path] \<and> lower p = ''/file''
        \<and> exists_path s (absolute s (strip file_path)) \<and> \<not> is_file s (absolute s (strip file_path)) \<longrightarrow>
      handle_command c cmd evs s =
        (None, send c [(''type'', ''error''),
                       (''content'', ''Path is not a file: '' @ str_of_path (absolute s (strip file_path)))] s, evs))
   \<and> (\<forall>p. split1 cmd = [p] \<and> lower p = ''/file'' \<longrightarrow> fst (handle_command c cmd evs s) = None)
   \<and> (\<forall>p l rest.
        split1 cmd = [p] \<and> lower p = ''/file'' \<and> evs = Line l # rest \<and> strip l \<noteq> []
        \<and> \<not> exists_path s (absolute s (strip (strip l))) \<longrightarrow>
      handle_command c cmd evs s =
        (None, send c [(''type'', ''error''),
                       (''content'', ''File not found: '' @ str_of_path (absolute s (strip (strip l))))]
                 (send c [(''type'', ''system''), (''content'', ''Send file path to upload'')] s), rest))
   \<and> (\<forall>p l rest.
        split1 cmd = [p] \<and> lower p = ''/file'' \<and> evs = Line l # rest \<and> strip l \<noteq> []
        \<and> exists_path s (absolute s (strip (strip l))) \<and> \<not> is_file s (absolute s (strip (strip l))) \<longrightarrow>
      handle_command c cmd evs s =
        (None, send c [(''type'', ''error''),
                       (''content'', ''Path is not a file: '' @ str_of_path (absolute s (strip (strip l))))]
                 (send c [(''type'', ''system''), (''content'', ''Send file path to upload'')] s), rest))
   \<and> (\<forall>l s' evs'.
        strip l = cmd \<and> startswith_slash cmd \<and> handle_command c cmd evs s = (None, s', evs') \<longrightarrow>
      receive_from_client c (Line l # evs) s = receive_from_client c evs' s')"
proof -
  let ?prompt = "[(''type'', ''system''), (''content'', ''Send file path to upload'')]"
  have noabort: "fst (handle_command c cmd evs s) = None"
    if "split1 cmd = [p] \<and> lower p = ''/file''" for p
    using that by (simp add: handle_command_file_prompt Let_def split: prod.splits)
  have pnofile: "handle_command c cmd evs s =
        (None, send c [(''type'', ''error''),
                       (''content'', ''File not found: '' @ str_of_path (absolute s (strip (strip l))))]
                 (send c ?prompt s), rest)"
    if "split1 cmd = [p] \<and> lower p = ''/file'' \<and> evs = Line l # rest \<and> strip l \<noteq> []
        \<and> \<not> exists_path s (absolute s (strip (strip l)))" for p l rest
    using that
    by (simp add: handle_command_file_prompt receive_message_line falsy_def upload_file_not_found)
  have pnotfile: "handle_command c cmd evs s =
        (None, send c [(''type'', ''error''),
                       (''content'', ''Path is not a file: '' @ str_of_path (absolute s (strip (strip l))))]
                 (send c ?prompt s), rest)"
    if "split1 cmd = [p] \<and> lower p = ''/file'' \<and> evs = Line l # rest \<and> strip l \<noteq> []
        \<and> exists_path s (absolute s (strip (strip l))) \<and> \<not> is_file s (absolute s (strip (strip l)))"
    for p l rest
    using that
    by (simp add: handle_command_file_prompt receive_message_line falsy_def upload_file_not_a_file)
  have unknown: "handle_command c cmd evs s = (None, s, evs)"
    if "split1 cmd = p # ps \<and> lower p \<notin> {''/help'', ''/list'', ''/private'', ''/file'', ''/quit''}" for p ps
    using that by (simp add: handle_command_def)
  have missing: "handle_command c cmd evs s = (None, s, evs)"
    if "lower p = ''/private''
          \<and> (split1 cmd = [p] \<or> (\<exists>remainder. split1 cmd = [p, remainder] \<and> length (split1 remainder) < 2))" for p
    using that by (auto simp: handle_command_def Let_def)
  have absent: "handle_command c cmd evs s =
        (None, send c [(''type'', ''error''), (''content'', ''User '' @ lstrip_at target @ '' not found'')] s, evs)"
    if h: "split1 cmd = [p, remainder] \<and> lower p = ''/private'' \<and> split1 remainder = [target, body]
        \<and> current_room (client_at s c) = Some r
        \<and> (\<forall>m\<in>set (members (room_at s r)). username (client_at s m) \<noteq> Some (lstrip_at target))"
    for p remainder target body r
  proof -
    from h have "find_member s (lstrip_at target) (members (room_at s r)) = None"
      by (simp add: find_member_None)
    then have "send_private_message r c (lstrip_at target) body s = (False, s)"
      by (simp add: send_private_message_def)
    with h show ?thesis
      by (simp add: handle_command_def Let_def)
  qed
  have nofile: "handle_command c cmd evs s =
        (None, send c [(''type'', ''error''),
                       (''content'', ''File not found: '' @ str_of_path (absolute s (strip file_path)))] s, evs)"
    if "split1 cmd = [p, file_path] \<and> lower p = ''/file''
        \<and> \<not> exists_path s (absolute s (strip file_path))" for p file_path
    using that by (simp add: handle_command_def upload_file_not_found)
  have notfile: "handle_command c cmd evs s =
        (None, send c [(''type'', ''error''),
                       (''content'', ''Path is not a file: '' @ str_of_path (absolute s (strip file_path)))] s, evs)"
    if "split1 cmd = [p, file_path] \<and> lower p = ''/file''
        \<and> exists_path s (absolute s (strip file_path)) \<and> \<not> is_file s (absolute s (strip file_path))"
    for p file_path
    using that by (simp add: handle_command_def upload_file_not_a_file)
  have goes_on: "receive_from_client c (Line l # evs) s = receive_from_client c evs' s'"
    if h: "strip l = cmd \<and> startswith_slash cmd \<and> handle_command c cmd evs s = (None, s', evs')"
    for l s' evs'
  proof -
    from h have "strip l \<noteq> []" by (auto simp: startswith_slash_def)
    with h show ?thesis
      by (auto intro: receive_from_client_command)
  qed
  from unknown missing absent nofile notfile noabort pnofile pnotfile goes_on show ?thesis
    by blast
qed


theorem command_faults_witness:
  "split1 ''/foo'' = [''/foo'']
   \<and> lower ''/foo'' \<notin> {''/help'', ''/list'', ''/private'', ''/file'', ''/quit''}
   \<and> handle_command 0 ''/foo'' [] alice_and_bob = (None, alice_and_bob, [])
   \<and> strip ''/foo\<newline>'' = ''/foo'' \<and> startswith_slash ''/foo''
   \<and> receive_from_client 0 [Line ''/foo\<newline>''] alice_and_bob = receive_from_client 0 [] alice_and_bob
   \<and> lower ''/private'' = ''/private'' \<and> split1 ''/private'' = [''/private'']
   \<and> handle_command 0 ''/private'' [] alice_and_bob = (None, alice_and_bob, [])
   \<and> split1 ''/private @Bob'' = [''/private'', ''@Bob''] \<and> length (split1 ''@Bob'') < 2
   \<and> handle_command 0 ''/private @Bob'' [] alice_and_bob = (None, alice_and_bob, [])
   \<and> split1 ''/private @Carol hi'' = [''/private'', ''@Carol hi'']
   \<and> split1 ''@Carol hi'' = [''@Carol'', ''hi'']
   \<and> current_room (client_at alice_and_bob 0) = Some 0
   \<and> list_all (\<lambda>m. username (client_at alice_and_bob m) \<noteq> Some (lstrip_at ''@Carol''))
         (members (room_at alice_and_bob 0))
   \<and> handle_command 0 ''/private @Carol hi'' [] alice_and_bob =
        (None, send 0 [(''type'', ''error''), (''content'', ''User Carol not found'')] alice_and_bob, [])
   \<and> split1 ''/file /nope'' = [''/file'', ''/nope''] \<and> lower ''/file'' = ''/file''
   \<and> \<not> exists_path alice_and_bob (absolute alice_and_bob (strip ''/nope''))
   \<and> handle_command 0 ''/file /nope'' [] alice_and_bob =
        (None, send 0 [(''type'', ''error''), (''content'', ''File not found: /nope'')] alice_and_bob, [])
   \<and> split1 ''/file'' = [''/file''] \<and> strip ''/nope\<newline>'' \<noteq> []
   \<and> \<not> exists_path alice_and_bob (absolute alice_and_bob (strip (strip ''/nope\<newline>'')))
   \<and> handle_command 0 ''/file'' [Line ''/nope\<newline>''] alice_and_bob =
        (None, send 0 [(''type'', ''error''), (''content'', ''File not found: /nope'')]
                 (send 0 [(''type'', ''system''), (''content'', ''Send file path to upload'')] alice_and_bob), [])
   \<and> split1 ''/file /home/docs'' = [''/file'', ''/home/docs'']
   \<and> exists_path alice_and_bob (absolute alice_and_bob (strip ''/home/docs''))
   \<and> \<not> is_file alice_and_bob (absolute alice_and_bob (strip ''/home/docs''))
   \<and> handle_command 0 ''/file /home/docs'' [] alice_and_bob =
        (None, send 0 [(''type'', ''error''), (''content'', ''Path is not a file: /home/docs'')] alice_and_bob, [])"
proof -
  have u: "lower ''/foo'' \<notin> {''/help'', ''/list'', ''/private'', ''/file'', ''/quit''}"
    by (simp add: lower_examples)
  have sl: "startswith_slash ''/foo''" by (simp add: startswith_slash_def)
  have l: "length (split1 ''@Bob'') < 2" by (simp add: split1_examples)
  have nm: "\<forall>m\<in>set (members (room_at alice_and_bob 0)). username (client_at alice_and_bob m) \<noteq> Some (lstrip_at ''@Carol'')"
    by (simp add: lstrip_at_def)
  have la: "lstrip_at ''@Carol'' = ''Carol''" by (simp add: lstrip_at_def)
  have sp: "str_of_path [''nope''] = ''/nope''" "str_of_path [''home'', ''docs''] = ''/home/docs''"
    by (simp_all add: str_of_path_def)
  have foo: "handle_command 0 ''/foo'' [] alice_and_bob = (None, alice_and_bob, [])"
    using command_faults [of "''/foo''" 0 "[]" alice_and_bob] u
    by (simp add: split1_examples)
  have loop: "receive_from_client 0 [Line ''/foo\<newline>''] alice_and_bob = receive_from_client 0 [] alice_and_bob"
    using command_faults [of "''/foo''" 0 "[]" alice_and_bob] foo sl
    by (simp add: strip_examples)
  have p1: "handle_command 0 ''/private'' [] alice_and_bob = (None, alice_and_bob, [])"
    using command_faults [of "''/private''" 0 "[]" alice_and_bob]
    by (simp add: split1_examples lower_examples)
  have p2: "handle_command 0 ''/private @Bob'' [] alice_and_bob = (None, alice_and_bob, [])"
    using command_faults [of "''/private @Bob''" 0 "[]" alice_and_bob] l
    by (simp add: split1_examples lower_examples)
  have p3: "handle_command 0 ''/private @Carol hi'' [] alice_and_bob =
        (None, send 0 [(''type'', ''error''), (''content'', ''User Carol not found'')] alice_and_bob, [])"
    using command_faults [of "''/private @Carol hi''" 0 "[]" alice_and_bob] nm
    by (simp add: split1_examples lower_examples la)
  have f1: "handle_command 0 ''/file /nope'' [] alice_and_bob =
        (None, send 0 [(''type'', ''error''), (''content'', ''File not found: /nope'')] alice_and_bob, [])"
    using command_faults [of "''/file /nope''" 0 "[]" alice_and_bob]
    by (simp add: split1_examples lower_file strip_examples absolute_examples path_examples sp)
  have f2: "handle_command 0 ''/file /home/docs'' [] alice_and_bob =
        (None, send 0 [(''type'', ''error''), (''content'', ''Path is not a file: /home/docs'')] alice_and_bob, [])"
    using command_faults [of "''/file /home/docs''" 0 "[]" alice_and_bob]
    by (simp add: split1_examples lower_file strip_examples absolute_examples path_examples sp)
  have sn: "strip ''/nope\<newline>'' = ''/nope''"
    by (simp add: strip_def isspace_def)
  have f3: "handle_command 0 ''/file'' [Line ''/nope\<newline>''] alice_and_bob =
        (None, send 0 [(''type'', ''error''), (''content'', ''File not found: /nope'')]
                 (send 0 [(''type'', ''system''), (''content'', ''Send file path to upload'')] alice_and_bob), [])"
    using command_faults [of "''/file''" 0 "[Line ''/nope\<newline>'']" alice_and_bob]
    by (simp add: split1_file lower_file sn strip_examples absolute_examples path_examples sp)
  show ?thesis
    using u sl l nm foo loop p1 p2 p3 f1 f2 f3 sn
    by (simp add: split1_examples split1_file lower_examples lower_file strip_examples
          absolute_examples path_examples)
qed

text \<open>
  For an unknown command and for \<^verbatim>\<open>/private\<close> without a text, the state after the
  command is the state before it: no error message was sent.
\<close>

theorem command_fault_error_counterexample:
  "handle_command 0 ''/foo'' [] alice_and_bob = (None, alice_and_bob, [])
   \<and> handle_command 0 ''/private @Bob'' [] alice_and_bob = (None, alice_and_bob, [])
   \<and> received alice_and_bob 0 = []"
  by (simp add: handle_command_def split1_examples lower_examples)


subsection \<open>File transfer\<close>

lemma write_file_fields [simp]:
  "resolve (write_file p b s) = resolve s"
  "uploads_dir (write_file p b s) = uploads_dir s"
  "cwd (write_file p b s) = cwd s"
  "readable (write_file p b s) = readable s"
  "writable (write_file p b s) = writable s"
  "disk (write_file p b s) = (disk s)(resolve s p \<mapsto> File b)"
  "client_at (write_file p b s) = client_at s"
  "room_at (write_file p b s) = room_at s"
  by (simp_all add: write_file_def)

lemma upd_room_fs [simp]:
  "disk (upd_room r f s) = disk s"
  "resolve (upd_room r f s) = resolve s"
  "uploads_dir (upd_room r f s) = uploads_dir s"
  "cwd (upd_room r f s) = cwd s"
  "readable (upd_room r f s) = readable s"
  "writable (upd_room r f s) = writable s"
  by (simp_all add: upd_room_def)

lemma log_error_fs [simp]:
  "disk (log_error e s) = disk s"
  "resolve (log_error e s) = resolve s"
  "uploads_dir (log_error e s) = uploads_dir s"
  "cwd (log_error e s) = cwd s"
  "readable (log_error e s) = readable s"
  "writable (log_error e s) = writable s"
  "client_at (log_error e s) = client_at s"
  by (simp_all add: log_error_def)

lemma send_permissions [simp]:
  "readable (send c m s) = readable s"
  "writable (send c m s) = writable s"
  by (simp_all add: send_def send_message_def write_drain_def upd_client_def log_error_def
        split: option.splits)

lemma upload_error_fs [simp]:
  "disk (upload_error c e s) = disk s"
  "resolve (upload_error c e s) = resolve s"
  "uploads_dir (upload_error c e s) = uploads_dir s"
  "cwd (upload_error c e s) = cwd s"
  "readable (upload_error c e s) = readable s"
  "writable (upload_error c e s) = writable s"
  by (simp_all add: upload_error_def)

lemma is_file_exists: "is_file s p \<Longrightarrow> exists_path s p"
  by (auto simp: is_file_def exists_path_def split: option.splits)

lemma open_wb_Inr: "open_wb d s = Inr s1 \<Longrightarrow> s1 = write_file d [] s"
  by (auto simp: open_wb_def split: option.splits node.splits if_splits)

lemma open_rb_file:
  "is_file s p \<Longrightarrow> open_rb p s = (if readable s (resolve s p) then None else Some (permission_denied p))"
  by (auto simp: open_rb_def is_file_def split: option.splits node.splits)

text \<open>
  What an upload of a regular file does: when the source or the destination cannot be
  opened, the uploader is sent \<^verbatim>\<open>File upload error\<close> with the text of the exception and
  the file system is unchanged; when both are opened, the destination is emptied first
  and then given what is read from the source.
\<close>

lemma upload_file_open_fails:
  assumes "is_file s (upload_source s p)"
    and "open_rb (upload_source s p) s = Some e
         \<or> (open_rb (upload_source s p) s = None \<and> open_wb (upload_destination s p) s = Inl e)"
  shows "upload_file c p s = upload_error c e s"
    and "disk (upload_file c p s) = disk s"
  using assms is_file_exists [OF assms(1)]
  by (auto simp: upload_file_def upload_source_def upload_destination_def Let_def)

lemma upload_file_opened:
  assumes f: "is_file s (upload_source s p)"
    and rb: "open_rb (upload_source s p) s = None"
    and wb: "open_wb (upload_destination s p) s = Inr s1"
  shows "disk (upload_file c p s) =
           (disk s)(resolve s (upload_destination s p)
              \<mapsto> File (read_file (write_file (upload_destination s p) [] s) (upload_source s p)))"
    and "broken (writer (client_at s c)) = None \<Longrightarrow>
         received (upload_file c p s) c =
           received s c @
             [[(''type'', ''system''),
               (''content'', ''File '' @ path_name (upload_source s p) @ '' uploaded successfully (''
                  @ str_of_nat (length (read_file (write_file (upload_destination s p) [] s)
                                           (upload_source s p))) @ '' bytes)'')]]"
proof -
  note defs = upload_source_def upload_destination_def
  from wb have s1: "s1 = write_file (upload_destination s p) [] s" by (rule open_wb_Inr)
  have e: "exists_path s (upload_source s p)" using f by (rule is_file_exists)
  show "disk (upload_file c p s) =
           (disk s)(resolve s (upload_destination s p)
              \<mapsto> File (read_file (write_file (upload_destination s p) [] s) (upload_source s p)))"
    using f e rb wb unfolding s1 defs
    by (simp add: upload_file_def Let_def split: option.splits)
  show "received (upload_file c p s) c =
           received s c @
             [[(''type'', ''system''),
               (''content'', ''File '' @ path_name (upload_source s p) @ '' uploaded successfully (''
                  @ str_of_nat (length (read_file (write_file (upload_destination s p) [] s)
                                           (upload_source s p))) @ '' bytes)'')]]"
    if "broken (writer (client_at s c)) = None"
    using f e rb wb that unfolding s1 defs
    by (simp add: upload_file_def Let_def received_send split: option.splits)
qed

lemma read_after_truncate:
  "read_file (write_file d [] s) f = (if resolve s d = resolve s f then [] else read_file s f)"
  by (simp add: read_file_def)

lemma upload_file_broken [simp]:
  "broken (writer (client_at (upload_file c p s) c')) = broken (writer (client_at s c'))"
  by (auto simp: upload_file_def upload_error_def Let_def upd_room_def
        split: option.splits sum.splits dest!: open_wb_Inr)

lemma upload_file_env [simp]:
  "resolve (upload_file c p s) = resolve s"
  "uploads_dir (upload_file c p s) = uploads_dir s"
  "cwd (upload_file c p s) = cwd s"
  "readable (upload_file c p s) = readable s"
  "writable (upload_file c p s) = writable s"
  by (auto simp: upload_file_def Let_def split: option.splits sum.splits dest!: open_wb_Inr)


lemma alice_and_bob_permissions [simp]:
  "readable alice_and_bob = (\<lambda>i. i \<noteq> 7)"
  "writable alice_and_bob = (\<lambda>_. True)"
  by (simp_all add: alice_and_bob_def demo_server_def AsyncChatServer_init_def)

lemma upload_path_examples:
  "upload_source alice_and_bob ''/home/a.txt'' = [''home'', ''a.txt'']"
  "upload_destination alice_and_bob ''/home/a.txt'' = [''srv'', ''uploaded_files'', ''a.txt'']"
  "upload_source alice_and_bob ''/home/secret.txt'' = [''home'', ''secret.txt'']"
  "upload_source a_txt_uploaded ''/srv/uploaded_files/a.txt'' = [''srv'', ''uploaded_files'', ''a.txt'']"
  "upload_destination a_txt_uploaded ''/srv/uploaded_files/a.txt'' = [''srv'', ''uploaded_files'', ''a.txt'']"
  by (simp_all add: upload_source_def upload_destination_def a_txt_uploaded_def strip_def
        isspace_def absolute_def Path_parts_def startswith_slash_def path_name_def joinpath_def)

lemma demo_locations:
  "demo_resolve [''srv'', ''uploaded_files'', ''a.txt''] = 2"
  "demo_resolve [''home'', ''a.txt''] = 3"
  "demo_resolve [''home'', ''secret.txt''] = 7"
  "demo_resolve [''srv'', ''uploaded_files''] = 1"
  "demo_disk 2 = None" "demo_disk 3 = Some (File ''hello'')" "demo_disk 7 = Some (File ''key'')"
  by (simp_all add: demo_resolve_def demo_disk_def)

lemma str_of_nat_small:
  "str_of_nat 0 = ''0''"
  "str_of_nat (Suc (Suc (Suc (Suc (Suc 0))))) = ''5''"
proof -
  show "str_of_nat 0 = ''0''"
    by (simp add: str_of_nat.simps digit_char_def)
  have "str_of_nat 5 = ''5''"
    by (simp add: str_of_nat.simps digit_char_def)
  then show "str_of_nat (Suc (Suc (Suc (Suc (Suc 0))))) = ''5''"
    by (simp add: eval_nat_numeral)
qed

lemma a_txt_uploaded_state:
  "disk a_txt_uploaded = (disk alice_and_bob)(2 \<mapsto> File ''hello'')"
  "received a_txt_uploaded 0 =
     [[(''type'', ''system''), (''content'', ''File a.txt uploaded successfully (5 bytes)'')]]"
  "resolve a_txt_uploaded = demo_resolve"
  "readable a_txt_uploaded = (\<lambda>i. i \<noteq> 7)"
  "writable a_txt_uploaded = (\<lambda>_. True)"
  "broken (writer (client_at a_txt_uploaded 0)) = None"
proof -
  have f: "is_file alice_and_bob (upload_source alice_and_bob ''/home/a.txt'')"
    by (simp add: upload_path_examples is_file_def demo_locations)
  have rb: "open_rb (upload_source alice_and_bob ''/home/a.txt'') alice_and_bob = None"
    by (simp add: open_rb_def upload_path_examples demo_locations)
  have wb: "open_wb (upload_destination alice_and_bob ''/home/a.txt'') alice_and_bob =
      Inr (write_file (upload_destination alice_and_bob ''/home/a.txt'') [] alice_and_bob)"
    by (simp add: open_wb_def upload_path_examples demo_locations)
  have rd: "read_file (write_file [''srv'', ''uploaded_files'', ''a.txt''] [] alice_and_bob)
      [''home'', ''a.txt''] = ''hello''"
    by (simp add: read_after_truncate demo_locations read_file_def)
  note u = upload_file_opened [OF f rb wb, of 0]
  show "disk a_txt_uploaded = (disk alice_and_bob)(2 \<mapsto> File ''hello'')"
    using u(1) by (simp add: a_txt_uploaded_def rd upload_path_examples demo_locations)
  show "received a_txt_uploaded 0 =
     [[(''type'', ''system''), (''content'', ''File a.txt uploaded successfully (5 bytes)'')]]"
    using u(2) by (simp add: a_txt_uploaded_def rd upload_path_examples path_name_def str_of_nat_small)
  show "resolve a_txt_uploaded = demo_resolve" "readable a_txt_uploaded = (\<lambda>i. i \<noteq> 7)"
    "writable a_txt_uploaded = (\<lambda>_. True)"
    by (simp_all add: a_txt_uploaded_def)
  show "broken (writer (client_at a_txt_uploaded 0)) = None"
    by (simp add: a_txt_uploaded_def)
qed


text \<open>A file that the server may not read: the uploader gets an error, nothing is copied.\<close>

lemma upload_unreadable_example:
  "is_file alice_and_bob (upload_source alice_and_bob ''/home/secret.txt'')
   \<and> upload_file 0 ''/home/secret.txt'' alice_and_bob =
       upload_error 0 (permission_denied [''home'', ''secret.txt'']) alice_and_bob
   \<and> disk (upload_file 0 ''/home/secret.txt'' alice_and_bob) = disk alice_and_bob"
proof -
  have f: "is_file alice_and_bob (upload_source alice_and_bob ''/home/secret.txt'')"
    by (simp add: upload_path_examples is_file_def demo_locations)
  have rb: "open_rb (upload_source alice_and_bob ''/home/secret.txt'') alice_and_bob
      = Some (permission_denied [''home'', ''secret.txt''])"
    by (simp add: open_rb_def upload_path_examples demo_locations)
  from upload_file_open_fails [OF f, of "permission_denied [''home'', ''secret.txt'']" 0] rb f
  show ?thesis by simp
qed

lemma split1_file_upload:
  "split1 ''/file /srv/uploaded_files/a.txt'' = [''/file'', ''/srv/uploaded_files/a.txt'']"
  by (simp add: split1_def isspace_def)

text \<open>
  C5. The claim is that an upload of an existing regular file leaves a byte-identical copy
  in the uploads directory under the file's base name and confirms the file's byte count.
  \<^verbatim>\<open>_upload_file\<close> opens the destination for writing, which empties it, before it reads
  the source. After Alice has uploaded \<^verbatim>\<open>/home/a.txt\<close> (5 bytes, copied and confirmed as
  the claim says), the command \<^verbatim>\<open>/file /srv/uploaded_files/a.txt\<close> names an existing
  regular file of 5 bytes whose destination is the file itself: the upload leaves it
  empty and confirms 0 bytes.
\<close>

theorem upload_of_own_copy_truncates:
  "is_file alice_and_bob (upload_source alice_and_bob ''/home/a.txt'')
   \<and> read_file alice_and_bob (upload_source alice_and_bob ''/home/a.txt'') = ''hello''
   \<and> upload_destination alice_and_bob ''/home/a.txt'' = [''srv'', ''uploaded_files'', ''a.txt'']
   \<and> read_file a_txt_uploaded [''srv'', ''uploaded_files'', ''a.txt''] = ''hello''
   \<and> received a_txt_uploaded 0 =
       [[(''type'', ''system''), (''content'', ''File a.txt uploaded successfully (5 bytes)'')]]
   \<and> handle_command 0 ''/file /srv/uploaded_files/a.txt'' [] a_txt_uploaded =
       (None, upload_file 0 ''/srv/uploaded_files/a.txt'' a_txt_uploaded, [])
   \<and> upload_source a_txt_uploaded ''/srv/uploaded_files/a.txt'' = [''srv'', ''uploaded_files'', ''a.txt'']
   \<and> upload_destination a_txt_uploaded ''/srv/uploaded_files/a.txt'' = [''srv'', ''uploaded_files'', ''a.txt'']
   \<and> is_file a_txt_uploaded [''srv'', ''uploaded_files'', ''a.txt'']
   \<and> read_file (upload_file 0 ''/srv/uploaded_files/a.txt'' a_txt_uploaded)
         [''srv'', ''uploaded_files'', ''a.txt''] = []
   \<and> is_file (upload_file 0 ''/srv/uploaded_files/a.txt'' a_txt_uploaded)
         [''srv'', ''uploaded_files'', ''a.txt'']
   \<and> received (upload_file 0 ''/srv/uploaded_files/a.txt'' a_txt_uploaded) 0 =
       [[(''type'', ''system''), (''content'', ''File a.txt uploaded successfully (5 bytes)'')],
        [(''type'', ''system''), (''content'', ''File a.txt uploaded successfully (0 bytes)'')]]"
proof -
  let ?p = "''/srv/uploaded_files/a.txt''"
  let ?d = "[''srv'', ''uploaded_files'', ''a.txt'']"
  have a: "is_file alice_and_bob (upload_source alice_and_bob ''/home/a.txt'')"
    "read_file alice_and_bob (upload_source alice_and_bob ''/home/a.txt'') = ''hello''"
    by (simp_all add: upload_path_examples is_file_def read_file_def demo_locations)
  have b: "read_file a_txt_uploaded ?d = ''hello''" "is_file a_txt_uploaded ?d"
    by (simp_all add: read_file_def is_file_def a_txt_uploaded_state demo_locations)
  have hc: "handle_command 0 ''/file /srv/uploaded_files/a.txt'' [] a_txt_uploaded =
       (None, upload_file 0 ?p a_txt_uploaded, [])"
    by (simp add: handle_command_def split1_file_upload lower_file)
  have f: "is_file a_txt_uploaded (upload_source a_txt_uploaded ?p)"
    using b(2) by (simp add: upload_path_examples)
  have rb: "open_rb (upload_source a_txt_uploaded ?p) a_txt_uploaded = None"
    by (simp add: open_rb_def upload_path_examples a_txt_uploaded_state demo_locations)
  have wb: "open_wb (upload_destination a_txt_uploaded ?p) a_txt_uploaded =
      Inr (write_file (upload_destination a_txt_uploaded ?p) [] a_txt_uploaded)"
    by (simp add: open_wb_def upload_path_examples a_txt_uploaded_state demo_locations)
  have rd: "read_file (write_file ?d [] a_txt_uploaded) ?d = []"
    by (simp add: read_after_truncate)
  note u = upload_file_opened [OF f rb wb, of 0]
  have d2: "disk (upload_file 0 ?p a_txt_uploaded) = (disk a_txt_uploaded)(2 \<mapsto> File [])"
    using u(1) by (simp add: upload_path_examples rd a_txt_uploaded_state demo_locations)
  have c: "read_file (upload_file 0 ?p a_txt_uploaded) ?d = []"
    "is_file (upload_file 0 ?p a_txt_uploaded) ?d"
    by (simp_all add: read_file_def is_file_def d2 a_txt_uploaded_state demo_locations)
  have r: "received (upload_file 0 ?p a_txt_uploaded) 0 =
       [[(''type'', ''system''), (''content'', ''File a.txt uploaded successfully (5 bytes)'')],
        [(''type'', ''system''), (''content'', ''File a.txt uploaded successfully (0 bytes)'')]]"
    using u(2)
    by (simp add: upload_path_examples rd a_txt_uploaded_state path_name_def str_of_nat_small)
  from a b hc c r show ?thesis
    by (simp add: upload_path_examples a_txt_uploaded_state)
qed


subsection \<open>Delivery from the room queue\<close>

lemma broadcast_step_current_room [simp]:
  "current_room (client_at (broadcast_step c s) c') = current_room (client_at s c')"
  by (simp add: broadcast_step_def upd_room_def split: option.splits list.splits)

lemma broadcast_step_other:
  "c' \<noteq> c \<Longrightarrow> received (broadcast_step c s) c' = received s c'"
  by (simp add: broadcast_step_def received_send split: option.splits list.splits)

lemma broadcast_step_other_room:
  "current_room (client_at s c) \<noteq> Some r \<Longrightarrow>
   message_queue (room_at (broadcast_step c s) r) = message_queue (room_at s r)"
  by (auto simp: broadcast_step_def upd_room_def split: option.splits list.splits)

lemma upd_room_client_at [simp]: "client_at (upd_room r f s) = client_at s"
  by (simp add: upd_room_def)

text \<open>
  A step of a member's loop moves the head of the room queue to that member (or loses
  it, when writing fails), and an empty queue stays empty.
\<close>

lemma broadcast_step_moves:
  assumes "current_room (client_at s c) = Some r"
  shows "message_queue (room_at s r) = [] \<Longrightarrow> broadcast_step c s = s"
    and "message_queue (room_at s r) = m # q \<Longrightarrow>
         message_queue (room_at (broadcast_step c s) r) = q
       \<and> received (broadcast_step c s) c =
           (if broken (writer (client_at s c)) = None then received s c @ [m] else received s c)"
  using assms
  by (simp_all add: broadcast_step_def received_send) (simp add: upd_room_def)

lemma broadcast_step_no_room:
  "current_room (client_at s c) = None \<Longrightarrow> broadcast_step c s = s"
  by (simp add: broadcast_step_def)

lemma broadcast_step_no_copy:
  assumes "current_room (client_at s c) = Some 0 \<or> current_room (client_at s c) = None"
  shows "pending_and_received (broadcast_step c s) \<le> pending_and_received s"
proof (cases "current_room (client_at s c) = Some 0")
  case False
  with assms show ?thesis by (simp add: broadcast_step_no_room)
next
  case True
  show ?thesis
  proof (cases "message_queue (room_at s 0)")
    case Nil
    with True show ?thesis by (simp add: broadcast_step_moves(1))
  next
    case (Cons m q)
    note mv = broadcast_step_moves(2) [OF True Cons]
    consider (a) "c = 0" | (b) "c = 1" | (o) "c \<noteq> 0" "c \<noteq> 1" by auto
    then show ?thesis
    proof cases
      case a
      with mv Cons broadcast_step_other [of 1 c s] show ?thesis
        by (simp add: pending_and_received_def)
    next
      case b
      with mv Cons broadcast_step_other [of 0 c s] show ?thesis
        by (simp add: pending_and_received_def)
    next
      case o
      with mv Cons broadcast_step_other [of 0 c s] broadcast_step_other [of 1 c s] show ?thesis
        by (simp add: pending_and_received_def)
    qed
  qed
qed

lemma run_broadcast_no_copy:
  "\<forall>c. current_room (client_at s c) = Some 0 \<or> current_room (client_at s c) = None \<Longrightarrow>
   pending_and_received (run_broadcast cs s) \<le> pending_and_received s"
proof (induction cs arbitrary: s)
  case Nil
  show ?case by simp
next
  case (Cons c cs)
  from Cons.prems have "\<forall>c'. current_room (client_at (broadcast_step c s) c') = Some 0
      \<or> current_room (client_at (broadcast_step c s) c') = None"
    by simp
  then have "pending_and_received (run_broadcast cs (broadcast_step c s)) \<le> pending_and_received (broadcast_step c s)"
    by (rule Cons.IH)
  also have "\<dots> \<le> pending_and_received s"
    using Cons.prems by (simp add: broadcast_step_no_copy)
  finally show ?case by simp
qed

lemma run_broadcast_empty_queue:
  "\<forall>c. current_room (client_at s c) = Some 0 \<or> current_room (client_at s c) = None \<Longrightarrow>
   message_queue (room_at s 0) = [] \<Longrightarrow> run_broadcast cs s = s"
proof (induction cs)
  case Nil
  show ?case by simp
next
  case (Cons c cs)
  have "broadcast_step c s = s"
  proof (cases "current_room (client_at s c)")
    case None
    then show ?thesis by (simp add: broadcast_step_def)
  next
    case (Some r)
    with Cons.prems(1) have "r = 0" by (metis option.distinct(1) option.inject)
    with Some Cons.prems(2) show ?thesis by (simp add: broadcast_step_moves(1))
  qed
  with Cons show ?case by simp
qed

lemma hello_posted_fields [simp]:
  "message_queue (room_at hello_posted 0) = [hello_message]"
  "received hello_posted 0 = []"
  "received hello_posted (Suc 0) = []"
  "current_room (client_at hello_posted c) = current_room (client_at alice_and_bob c)"
  "broken (writer (client_at hello_posted 0)) = None"
  by (simp_all add: hello_posted_def hello_message_def post_message_def upd_room_def tick_def
        queue_put_def received_def str_of_username_def new_writer_def)

lemma alice_and_bob_rooms_only:
  "current_room (client_at alice_and_bob c) = Some 0 \<or> current_room (client_at alice_and_bob c) = None"
  by (simp add: alice_and_bob_def demo_server_def AsyncChatServer_init_def ClientConnection_init_def)

lemma handshake_joins:
  assumes n: "strip n \<noteq> []" and rn: "strip rn \<noteq> []" and r: "rooms s (strip rn) = Some r"
  shows "fst (handshake c (Line n # Line rn # evs) s) = Some evs"
    and "current_room (client_at (snd (handshake c (Line n # Line rn # evs) s)) c) = Some r"
    and "message_queue (room_at (snd (handshake c (Line n # Line rn # evs) s)) r) =
           message_queue (room_at s r) @
             [[(''type'', ''system''), (''content'', strip n @ '' joined the room''), (''time'', now s)]]"
    and "members (room_at (snd (handshake c (Line n # Line rn # evs) s)) r) = set_add c (members (room_at s r))"
    and "broken (writer (client_at (snd (handshake c (Line n # Line rn # evs) s)) c))
           = broken (writer (client_at s c))"
proof -
  let ?s2 = "send c [(''type'', ''request''), (''message'', ''Enter your username:'')] s"
  let ?s3 = "upd_client c (\<lambda>cl. cl\<lparr>username := Some (strip n)\<rparr>) ?s2"
  let ?s4 = "send c [(''type'', ''request''), (''message'', ''Enter room name:'')] ?s3"
  let ?s7 = "upd_client c (\<lambda>cl. cl\<lparr>current_room := Some r\<rparr>) ?s4"
  let ?s8 = "add_member r c ?s7"
  let ?s9 = "send c [(''type'', ''success''),
                 (''message'', ''Welcome to room '' @ [CHR 0x27] @ strip rn @ [CHR 0x27]
                    @ ''! (Type /help for commands)'')] ?s8"
  have g: "get_or_create_room (strip rn) ?s4 = (r, ?s4)"
    using r by (simp add: get_or_create_room_def)
  have h: "handshake c (Line n # Line rn # evs) s = (Some evs, ?s9)"
    using n rn by (simp add: handshake_def receive_message_line falsy_def g Let_def)
  have u: "username (client_at ?s7 c) = Some (strip n)" by simp
  have t: "now ?s7 = now s" by (simp add: now_def upd_client_def)
  show "fst (handshake c (Line n # Line rn # evs) s) = Some evs" by (simp add: h)
  show "current_room (client_at (snd (handshake c (Line n # Line rn # evs) s)) c) = Some r"
    by (simp add: h add_member_def upd_room_def tick_def)
  show "message_queue (room_at (snd (handshake c (Line n # Line rn # evs) s)) r) =
           message_queue (room_at s r) @
             [[(''type'', ''system''), (''content'', strip n @ '' joined the room''), (''time'', now s)]]"
    by (simp add: h u t str_of_username_def)
  show "members (room_at (snd (handshake c (Line n # Line rn # evs) s)) r) = set_add c (members (room_at s r))"
    by (simp add: h)
  show "broken (writer (client_at (snd (handshake c (Line n # Line rn # evs) s)) c))
           = broken (writer (client_at s c))"
    by (simp add: h add_member_def upd_room_def tick_def)
qed

lemma hello_posted_more [simp]:
  "next_client hello_posted = 2"
  "members (room_at hello_posted 0) = [0, 1]"
  "rooms hello_posted ''lobby'' = Some 0"
  "time_source hello_posted = (\<lambda>_. ''2024-01-01 12:00:00'')"
  by (simp_all add: hello_posted_def post_message_def upd_room_def tick_def)
     (simp_all add: alice_and_bob_def)

lemma accept_client_fields [simp]:
  "rooms (snd (accept_client w s)) = rooms s"
  "room_at (snd (accept_client w s)) = room_at s"
  "time_source (snd (accept_client w s)) = time_source s"
  "client_at (snd (accept_client w s)) (next_client s) = ClientConnection_init w"
  by (simp_all add: accept_client_def)

lemma carol_joined_fields:
  "current_room (client_at carol_joined 2) = Some 0"
  "message_queue (room_at carol_joined 0) =
     [hello_message,
      [(''type'', ''system''), (''content'', ''Carol joined the room''), (''time'', ''2024-01-01 12:00:00'')]]"
  "members (room_at carol_joined 0) = [0, 1, 2]"
  "broken (writer (client_at carol_joined 2)) = None"
proof -
  let ?s0 = "snd (accept_client new_writer hello_posted)"
  have n: "strip ''Carol\<newline>'' \<noteq> []" and rn: "strip ''lobby\<newline>'' \<noteq> []"
    and l: "strip ''lobby\<newline>'' = ''lobby''" and c: "strip ''Carol\<newline>'' = ''Carol''"
    by (simp_all add: strip_def isspace_def)
  have r: "rooms ?s0 (strip ''lobby\<newline>'') = Some 0"
    by (simp add: l)
  have q: "message_queue (room_at ?s0 0) = [hello_message]"
    "members (room_at ?s0 0) = [0, 1]"
    by simp_all
  have "client_at ?s0 (next_client hello_posted) = ClientConnection_init new_writer"
    by (rule accept_client_fields)
  then have b: "broken (writer (client_at ?s0 2)) = None"
    by (simp add: ClientConnection_init_def)
  have t: "now ?s0 = ''2024-01-01 12:00:00''"
    by (simp add: now_def)
  note j = handshake_joins [OF n rn r, of 2 "[]"]
  show "current_room (client_at carol_joined 2) = Some 0"
    using j(2) by (simp add: carol_joined_def)
  show "message_queue (room_at carol_joined 0) =
     [hello_message,
      [(''type'', ''system''), (''content'', ''Carol joined the room''), (''time'', ''2024-01-01 12:00:00'')]]"
    using j(3) by (simp add: carol_joined_def q t c)
  show "members (room_at carol_joined 0) = [0, 1, 2]"
    using j(4) by (simp add: carol_joined_def q set_add_def)
  show "broken (writer (client_at carol_joined 2)) = None"
    using j(5) by (simp add: carol_joined_def b)
qed


text \<open>
  C1. The claim is that a message put on a room's queue reaches every connection that
  is a member at that time, and none that joined later. The delivery loops of all
  members take from the one queue, so each message goes to one of them. With Alice and
  Bob in the room and "hello" on the queue: whatever the order in which the loops run,
  Alice and Bob together receive at most one message; once Alice's loop has taken it,
  Bob never receives it; and Carol, who joins after it was posted, receives it when her
  loop runs first.
\<close>

theorem broadcast_reaches_one_member:
  "hello_message \<in> set (message_queue (room_at hello_posted 0))
   \<and> set (members (room_at hello_posted 0)) = {0, 1}
   \<and> (\<forall>cs. length (received (run_broadcast cs hello_posted) 0)
              + length (received (run_broadcast cs hello_posted) 1) \<le> 1)
   \<and> (\<forall>cs. received (run_broadcast (0 # cs) hello_posted) 0 = [hello_message]
          \<and> received (run_broadcast (0 # cs) hello_posted) 1 = [])
   \<and> 2 \<notin> set (members (room_at hello_posted 0))
   \<and> 2 \<in> set (members (room_at carol_joined 0))
   \<and> hello_message \<in> set (received (run_broadcast [2] carol_joined) 2)"
proof -
  have a: "hello_message \<in> set (message_queue (room_at hello_posted 0))" by simp
  have b: "set (members (room_at hello_posted 0)) = {0, 1}" by auto
  have p: "pending_and_received hello_posted = 1"
    by (simp add: pending_and_received_def)
  have c: "length (received (run_broadcast cs hello_posted) 0)
              + length (received (run_broadcast cs hello_posted) 1) \<le> 1" for cs
    using run_broadcast_no_copy [of hello_posted cs] p alice_and_bob_rooms_only
    by (simp add: pending_and_received_def)
  let ?s1 = "broadcast_step 0 hello_posted"
  have mv: "message_queue (room_at ?s1 0) = [] \<and> received ?s1 0 = [hello_message]"
    using broadcast_step_moves(2) [of hello_posted 0 0 hello_message "[]"] by simp
  have o: "received ?s1 1 = []"
    using broadcast_step_other [of 1 0 hello_posted] by simp
  have cr: "\<forall>c. current_room (client_at ?s1 c) = Some 0 \<or> current_room (client_at ?s1 c) = None"
    using alice_and_bob_rooms_only by simp
  have "run_broadcast cs ?s1 = ?s1" for cs
    using cr mv by (simp add: run_broadcast_empty_queue)
  then have d: "received (run_broadcast (0 # cs) hello_posted) 0 = [hello_message]
          \<and> received (run_broadcast (0 # cs) hello_posted) 1 = []" for cs
    using mv o by simp
  have e: "2 \<notin> set (members (room_at hello_posted 0))" by simp
  have f: "2 \<in> set (members (room_at carol_joined 0))"
    by (simp add: carol_joined_fields)
  have "received (broadcast_step 2 carol_joined) 2 = received carol_joined 2 @ [hello_message]"
    using broadcast_step_moves(2) [OF carol_joined_fields(1) carol_joined_fields(2)]
    by (simp add: carol_joined_fields)
  then have g: "hello_message \<in> set (received (run_broadcast [2] carol_joined) 2)"
    by simp
  from a b c d e f g show ?thesis by blast
qed


end
